theory Spec2Isabelle
  imports Main "HOL-Library.Word" "HOL-Library.Multiset"
begin

unbundle bit_operations_syntax

section \<open>Basic types\<close>

type_synonym byte = "8 word"
type_synonym bytes = "byte list"
type_synonym uint64 = "64 word"
type_synonym address = "160 word"
type_synonym hash = "256 word"

text \<open>
  A Go call either returns its results or panics. Errors are ordinary results; a panic
  unwinds the caller as well, so it is kept apart from them.
\<close>

datatype 'a go = Panic | Return 'a

section \<open>Transactions (core/types/transaction.go, core/types/tx_legacy.go)\<close>

datatype tx_error =
    ErrTxTypeNotSupported
  | ErrGasFeeCapTooLow
  | errShortTypedTx
  | ErrRlp nat

text \<open>\<^verbatim>\<open>DynamicFeeTxType = 0x02\<close>, the only transaction type constant of the package.\<close>

definition DynamicFeeTxType :: byte where
  "DynamicFeeTxType = 0x02"

text \<open>The struct \<^verbatim>\<open>LegacyTx\<close>; a nil \<^verbatim>\<open>*big.Int\<close> or \<^verbatim>\<open>*common.Address\<close> is \<open>None\<close>,
  a nil byte slice is the empty list.\<close>

record LegacyTx =
  lt_Nonce :: uint64
  lt_GasPrice :: "int option"
  lt_Gas :: uint64
  lt_To :: "address option"
  lt_Value :: "int option"
  lt_Data :: bytes
  lt_PublicKey :: bytes
  lt_Signature :: bytes

text \<open>
  Modelled from the spec: the struct \<^verbatim>\<open>DynamicFeeTx\<close> (its file is not among the sources).
  The fields are those of the spec's Transaction: nonce, gas limit, fee cap and tip,
  recipient (nil means contract creation), value, input data, access list and the
  signature and public-key material, together with the chain id that the \<^verbatim>\<open>TxData\<close>
  interface exposes.
\<close>

record DynamicFeeTx =
  dt_ChainID :: int
  dt_Nonce :: uint64
  dt_GasTipCap :: int
  dt_GasFeeCap :: int
  dt_Gas :: uint64
  dt_To :: "address option"
  dt_Value :: int
  dt_Data :: bytes
  dt_AccessList :: "(address \<times> hash list) list"
  dt_PublicKey :: bytes
  dt_Signature :: bytes

text \<open>The interface \<^verbatim>\<open>TxData\<close> has two implementations.\<close>

datatype TxData = LegacyTxData LegacyTx | DynamicFeeTxData DynamicFeeTx

text \<open>
  What the transaction code uses and the sources do not contain is taken as a parameter:
  the RLP encoder and decoder behind \<^verbatim>\<open>DynamicFeeTx.encode\<close> and \<^verbatim>\<open>DynamicFeeTx.decode\<close>,
  \<^verbatim>\<open>DynamicFeeTx.copy\<close>, the hash function \<^verbatim>\<open>prefixedRlpHash\<close>, the constant
  \<^verbatim>\<open>LegacyTxType\<close> and the two key lengths of package pqcrypto.
\<close>

record codec =
  rlp_encode :: "DynamicFeeTx \<Rightarrow> tx_error + bytes"
  rlp_decode :: "bytes \<Rightarrow> tx_error + DynamicFeeTx"
  dyn_copy :: "DynamicFeeTx \<Rightarrow> DynamicFeeTx"
  prefixedRlpHash :: "byte \<Rightarrow> TxData \<Rightarrow> hash"
  LegacyTxType :: byte
  DilithiumPublicKeyLength :: nat
  DilithiumSignatureLength :: nat

text \<open>The struct \<^verbatim>\<open>Transaction\<close>: the inner data (a nil interface before the first
  \<^verbatim>\<open>setDecoded\<close>), the time first seen, and the hash and size caches. The sender cache
  \<^verbatim>\<open>from\<close> is used by no function modelled here and is left out.\<close>

record Transaction =
  inner :: "TxData option"
  tx_time :: nat
  hash_cache :: "hash option"
  size_cache :: "nat option"

text \<open>\<^verbatim>\<open>new(Transaction)\<close>\<close>

definition new_Transaction :: Transaction where
  "new_Transaction = \<lparr>inner = None, tx_time = 0, hash_cache = None, size_cache = None\<rparr>"

text \<open>\<^verbatim>\<open>setDecoded\<close>; \<open>now\<close> is what \<^verbatim>\<open>time.Now()\<close> returns.\<close>

definition setDecoded :: "nat \<Rightarrow> TxData \<Rightarrow> nat \<Rightarrow> Transaction \<Rightarrow> Transaction" where
  "setDecoded now i sz tx =
     (let tx1 = tx\<lparr>inner := Some i, tx_time := now\<rparr>
      in if sz > 0 then tx1\<lparr>size_cache := Some sz\<rparr> else tx1)"

text \<open>\<^verbatim>\<open>copy(dst[:n], src)\<close> into a zeroed slice of length \<open>n\<close>.\<close>

definition copy_into :: "nat \<Rightarrow> bytes \<Rightarrow> bytes" where
  "copy_into n src = take n src @ replicate (n - length src) 0"

definition LegacyTx_copy :: "codec \<Rightarrow> LegacyTx \<Rightarrow> LegacyTx" where
  "LegacyTx_copy cd tx =
     \<lparr>lt_Nonce = lt_Nonce tx,
      lt_GasPrice = Some (case lt_GasPrice tx of None \<Rightarrow> 0 | Some p \<Rightarrow> p),
      lt_Gas = lt_Gas tx,
      lt_To = lt_To tx,
      lt_Value = Some (case lt_Value tx of None \<Rightarrow> 0 | Some v \<Rightarrow> v),
      lt_Data = lt_Data tx,
      lt_PublicKey = copy_into (DilithiumPublicKeyLength cd) (lt_PublicKey tx),
      lt_Signature = copy_into (DilithiumSignatureLength cd) (lt_Signature tx)\<rparr>"

fun TxData_copy :: "codec \<Rightarrow> TxData \<Rightarrow> TxData" where
  "TxData_copy cd (LegacyTxData l) = LegacyTxData (LegacyTx_copy cd l)"
| "TxData_copy cd (DynamicFeeTxData d) = DynamicFeeTxData (dyn_copy cd d)"

fun txType :: "codec \<Rightarrow> TxData \<Rightarrow> byte" where
  "txType cd (LegacyTxData l) = LegacyTxType cd"
| "txType cd (DynamicFeeTxData d) = DynamicFeeTxType"


datatype tx_kind = KLegacyTx | KDynamicFeeTx

fun TxData_decode :: "codec \<Rightarrow> tx_kind \<Rightarrow> bytes \<Rightarrow> (tx_error + TxData) go" where
  "TxData_decode cd KLegacyTx b = Panic"
| "TxData_decode cd KDynamicFeeTx b =
     Return (case rlp_decode cd b of Inl e \<Rightarrow> Inl e | Inr d \<Rightarrow> Inr (DynamicFeeTxData d))"

text \<open>\<^verbatim>\<open>NewTx\<close> and the deprecated \<^verbatim>\<open>NewTransaction\<close>, which wraps a \<^verbatim>\<open>LegacyTx\<close>.\<close>

definition NewTx :: "codec \<Rightarrow> nat \<Rightarrow> TxData \<Rightarrow> Transaction" where
  "NewTx cd now i = setDecoded now (TxData_copy cd i) 0 new_Transaction"


text \<open>\<^verbatim>\<open>Type\<close> dereferences \<^verbatim>\<open>tx.inner\<close>: a nil interface panics.\<close>

definition Type :: "codec \<Rightarrow> Transaction \<Rightarrow> byte go" where
  "Type cd tx = (case inner tx of None \<Rightarrow> Panic | Some i \<Rightarrow> Return (txType cd i))"



text \<open>\<^verbatim>\<open>decodeTyped\<close>: the length check, the switch on \<^verbatim>\<open>b[0]\<close>, then \<^verbatim>\<open>inner.decode(b[1:])\<close>.\<close>

definition decodeTyped :: "codec \<Rightarrow> bytes \<Rightarrow> (tx_error + TxData) go" where
  "decodeTyped cd b =
     (if length b \<le> 1 then Return (Inl errShortTypedTx)
      else (case b of
              [] \<Rightarrow> Panic
            | b0 # rest \<Rightarrow>
                if b0 = DynamicFeeTxType then TxData_decode cd KDynamicFeeTx rest
                else Return (Inl ErrTxTypeNotSupported)))"

text \<open>\<^verbatim>\<open>UnmarshalBinary\<close>: the receiver afterwards and the error.\<close>

definition UnmarshalBinary ::
  "codec \<Rightarrow> nat \<Rightarrow> Transaction \<Rightarrow> bytes \<Rightarrow> (Transaction \<times> tx_error option) go" where
  "UnmarshalBinary cd now tx b =
     (case decodeTyped cd b of
        Panic \<Rightarrow> Panic
      | Return (Inl e) \<Rightarrow> Return (tx, Some e)
      | Return (Inr i) \<Rightarrow> Return (setDecoded now i (length b) tx, None))"

text \<open>\<^verbatim>\<open>Hash\<close>: the cached hash if there is one, else the hash of type and inner data,
  which is then cached. The result is the hash and the transaction afterwards.\<close>

definition Hash :: "codec \<Rightarrow> Transaction \<Rightarrow> (hash \<times> Transaction) go" where
  "Hash cd tx =
     (case hash_cache tx of
        Some h \<Rightarrow> Return (h, tx)
      | None \<Rightarrow>
          (case Type cd tx of
             Panic \<Rightarrow> Panic
           | Return ty \<Rightarrow>
               (case inner tx of
                  None \<Rightarrow> Panic
                | Some i \<Rightarrow>
                    (let h = prefixedRlpHash cd ty i
                     in Return (h, tx\<lparr>hash_cache := Some h\<rparr>)))))"

section \<open>The state database\<close>

record account =
  acc_nonce :: uint64
  acc_balance :: int
  acc_code :: bytes
  acc_storage :: "hash \<Rightarrow> hash"
  acc_selfdestructed :: bool

definition empty_account :: account where
  "empty_account =
     \<lparr>acc_nonce = 0, acc_balance = 0, acc_code = [], acc_storage = (\<lambda>k. 0),
      acc_selfdestructed = False\<rparr>"

record log_entry =
  log_address :: address
  log_topics :: "hash list"
  log_data :: bytes
  log_txhash :: hash

text \<open>
  Modelled from the spec: the struct \<^verbatim>\<open>state.StateDB\<close> with its journal (package
  core/state is not among the sources). The spec's World State is the map from addresses
  to accounts; its Snapshot/Journal is "an ordered log of reversible state mutations
  (balance change, nonce change, storage write, code set, account creation/destruction,
  log emission)", each entry "recording the prior value", where "reverting to checkpoint
  N undoes exactly the entries recorded after N, in reverse order". The access list is
  journalled as well: \<^verbatim>\<open>ZVM.create\<close> adds to it before its snapshot so that "the
  access-list change should not be rolled back". A checkpoint is a revision id with the
  length the journal had when it was opened.
\<close>

record world =
  accounts :: "address \<rightharpoonup> account"
  logs :: "log_entry list"
  accessList :: "address set"

datatype journal_entry =
    JAccount address "account option"
  | JLog
  | JAccessList address

record statedb =
  db_world :: world
  journal :: "journal_entry list"
  validRevisions :: "(nat \<times> nat) list"
  nextRevisionId :: nat
  thash :: hash
  txIndex :: nat

fun undo :: "journal_entry \<Rightarrow> world \<Rightarrow> world" where
  "undo (JAccount a prior) w = w\<lparr>accounts := (accounts w)(a := prior)\<rparr>"
| "undo JLog w = w\<lparr>logs := butlast (logs w)\<rparr>"
| "undo (JAccessList a) w = w\<lparr>accessList := accessList w - {a}\<rparr>"

text \<open>The state-changing methods of \<^verbatim>\<open>StateDB\<close>, as data: the interpreter and the
  transfer function of the block context change the state through them only.\<close>

datatype mutation =
    MCreateAccount address
  | MSetNonce address uint64
  | MAddBalance address int
  | MSubBalance address int
  | MSetBalance address int
  | MSetCode address bytes
  | MSetState address hash hash
  | MSelfDestruct address
  | MAddLog address "hash list" bytes
  | MAddAddressToAccessList address

text \<open>\<^verbatim>\<open>getOrNewStateObject\<close>: a missing account reads as the empty account and comes
  into being when it is written.\<close>

definition getOrNew :: "world \<Rightarrow> address \<Rightarrow> account" where
  "getOrNew w a = (case accounts w a of None \<Rightarrow> empty_account | Some x \<Rightarrow> x)"

definition set_account :: "address \<Rightarrow> account \<Rightarrow> world \<Rightarrow> world \<times> journal_entry list" where
  "set_account a x w = (w\<lparr>accounts := (accounts w)(a \<mapsto> x)\<rparr>, [JAccount a (accounts w a)])"

text \<open>
  Modelled from the spec: what each mutation does to the world and the journal entries
  it appends. Adding or subtracting a balance, also of zero, goes through
  \<^verbatim>\<open>getOrNewStateObject\<close>: the sources call \<^verbatim>\<open>AddBalance(addr, big0)\<close> "to trigger a
  touch" and \<^verbatim>\<open>AddBalance(coinbase, 0)\<close> because a coinbase that "isn't created ... needs
  to be touched". \<^verbatim>\<open>CreateAccount\<close> starts a fresh account that keeps the balance of
  the one it replaces.
\<close>

fun mutate :: "hash \<Rightarrow> mutation \<Rightarrow> world \<Rightarrow> world \<times> journal_entry list" where
  "mutate th (MCreateAccount a) w =
     set_account a (empty_account\<lparr>acc_balance := acc_balance (getOrNew w a)\<rparr>) w"
| "mutate th (MSetNonce a n) w = set_account a ((getOrNew w a)\<lparr>acc_nonce := n\<rparr>) w"
| "mutate th (MAddBalance a v) w =
     set_account a ((getOrNew w a)\<lparr>acc_balance := acc_balance (getOrNew w a) + v\<rparr>) w"
| "mutate th (MSubBalance a v) w =
     set_account a ((getOrNew w a)\<lparr>acc_balance := acc_balance (getOrNew w a) - v\<rparr>) w"
| "mutate th (MSetBalance a v) w = set_account a ((getOrNew w a)\<lparr>acc_balance := v\<rparr>) w"
| "mutate th (MSetCode a c) w = set_account a ((getOrNew w a)\<lparr>acc_code := c\<rparr>) w"
| "mutate th (MSetState a k v) w =
     set_account a ((getOrNew w a)\<lparr>acc_storage := (acc_storage (getOrNew w a))(k := v)\<rparr>) w"
| "mutate th (MSelfDestruct a) w =
     (case accounts w a of
        None \<Rightarrow> (w, [])
      | Some x \<Rightarrow> set_account a (x\<lparr>acc_balance := 0, acc_selfdestructed := True\<rparr>) w)"
| "mutate th (MAddLog a ts d) w =
     (w\<lparr>logs := logs w @ [\<lparr>log_address = a, log_topics = ts, log_data = d, log_txhash = th\<rparr>]\<rparr>,
      [JLog])"
| "mutate th (MAddAddressToAccessList a) w =
     (if a \<in> accessList w then (w, [])
      else (w\<lparr>accessList := insert a (accessList w)\<rparr>, [JAccessList a]))"

definition apply_mutation :: "mutation \<Rightarrow> statedb \<Rightarrow> statedb" where
  "apply_mutation m s =
     (case mutate (thash s) m (db_world s) of
        (w, es) \<Rightarrow> s\<lparr>db_world := w, journal := journal s @ es\<rparr>)"

fun apply_mutations :: "mutation list \<Rightarrow> statedb \<Rightarrow> statedb" where
  "apply_mutations [] s = s"
| "apply_mutations (m # ms) s = apply_mutations ms (apply_mutation m s)"

text \<open>The reading methods.\<close>

definition Exist :: "statedb \<Rightarrow> address \<Rightarrow> bool" where
  "Exist s a = (accounts (db_world s) a \<noteq> None)"

definition GetNonce :: "statedb \<Rightarrow> address \<Rightarrow> uint64" where
  "GetNonce s a = acc_nonce (getOrNew (db_world s) a)"

definition GetBalance :: "statedb \<Rightarrow> address \<Rightarrow> int" where
  "GetBalance s a = acc_balance (getOrNew (db_world s) a)"

definition GetCode :: "statedb \<Rightarrow> address \<Rightarrow> bytes" where
  "GetCode s a = acc_code (getOrNew (db_world s) a)"

text \<open>\<^verbatim>\<open>GetCodeHash\<close> is the zero hash for a missing account and the hash of the code
  otherwise; \<open>keccak\<close> is \<^verbatim>\<open>crypto.Keccak256Hash\<close>, so \<^verbatim>\<open>types.EmptyCodeHash\<close> is
  \<open>keccak []\<close>.\<close>

definition GetCodeHash :: "(bytes \<Rightarrow> hash) \<Rightarrow> statedb \<Rightarrow> address \<Rightarrow> hash" where
  "GetCodeHash keccak s a =
     (case accounts (db_world s) a of None \<Rightarrow> 0 | Some x \<Rightarrow> keccak (acc_code x))"

text \<open>\<^verbatim>\<open>Snapshot\<close> returns a fresh revision id and records the journal length.\<close>

definition Snapshot :: "statedb \<Rightarrow> nat \<times> statedb" where
  "Snapshot s =
     (nextRevisionId s,
      s\<lparr>validRevisions := validRevisions s @ [(nextRevisionId s, length (journal s))],
        nextRevisionId := nextRevisionId s + 1\<rparr>)"

text \<open>The first index whose revision id is at least \<open>revid\<close> (\<^verbatim>\<open>sort.Search\<close>).\<close>

definition search_revision :: "nat \<Rightarrow> (nat \<times> nat) list \<Rightarrow> nat" where
  "search_revision revid vr = length (takeWhile (\<lambda>r. fst r < revid) vr)"

text \<open>Undo the journal entries from the newest down to index \<open>n\<close>.\<close>

definition journal_revert :: "nat \<Rightarrow> statedb \<Rightarrow> statedb" where
  "journal_revert n s =
     s\<lparr>db_world := foldr undo (drop n (journal s)) (db_world s),
       journal := take n (journal s)\<rparr>"

text \<open>\<^verbatim>\<open>RevertToSnapshot\<close> panics on a revision id that is not valid; otherwise it
  unwinds the journal and forgets the revision and all later ones.\<close>

definition RevertToSnapshot :: "nat \<Rightarrow> statedb \<Rightarrow> statedb go" where
  "RevertToSnapshot revid s =
     (let vr = validRevisions s; idx = search_revision revid vr
      in if idx = length vr \<or> fst (vr ! idx) \<noteq> revid then Panic
         else Return ((journal_revert (snd (vr ! idx)) s)\<lparr>validRevisions := take idx vr\<rparr>))"

text \<open>
  What a run of the interpreter, with the calls nested in it, does to the state: a
  sequence of mutations and of frames. A frame is a nested call or creation: it opens a
  snapshot, has its own effects, and reverts to the snapshot when it failed.
\<close>

datatype effect = Mut mutation | Frame "effect list" bool

fun apply_effect :: "effect \<Rightarrow> statedb \<Rightarrow> statedb go"
  and apply_effects :: "effect list \<Rightarrow> statedb \<Rightarrow> statedb go" where
  "apply_effect (Mut m) s = Return (apply_mutation m s)"
| "apply_effect (Frame es failed) s =
     (case Snapshot s of
        (snapshot, s1) \<Rightarrow>
          (case apply_effects es s1 of
             Panic \<Rightarrow> Panic
           | Return s2 \<Rightarrow> if failed then RevertToSnapshot snapshot s2 else Return s2))"
| "apply_effects [] s = Return s"
| "apply_effects (e # es) s =
     (case apply_effect e s of Panic \<Rightarrow> Panic | Return s1 \<Rightarrow> apply_effects es s1)"

section \<open>The virtual machine (core/vm/zvm.go)\<close>

datatype vm_error =
    ErrDepth
  | ErrInsufficientBalance
  | ErrNonceUintOverflow
  | ErrContractAddressCollision
  | ErrExecutionReverted
  | ErrMaxCodeSizeExceeded
  | ErrInvalidCode
  | ErrCodeStoreOutOfGas
  | ErrOutOfGas
  | ErrWriteProtection
  | ErrOther nat

text \<open>The struct \<^verbatim>\<open>BlockContext\<close>. \<^verbatim>\<open>Transfer\<close> changes the state through the methods
  of \<^verbatim>\<open>StateDB\<close>, so it yields the mutations it makes.\<close>

record BlockContext =
  CanTransfer :: "statedb \<Rightarrow> address \<Rightarrow> int \<Rightarrow> bool"
  Transfer :: "statedb \<Rightarrow> address \<Rightarrow> address \<Rightarrow> int \<Rightarrow> mutation list"
  GetHash :: "uint64 \<Rightarrow> hash"
  Coinbase :: address
  GasLimit :: uint64
  BlockNumber :: int
  Time :: uint64
  BaseFee :: "int option"
  Random :: "hash option"

text \<open>
  Modelled from the spec: \<^verbatim>\<open>core.CanTransfer\<close> and \<^verbatim>\<open>core.Transfer\<close>, the functions
  that \<^verbatim>\<open>Prestate.Apply\<close> puts into the block context (their file is not among the
  sources): the balance covers the amount; the amount moves from sender to recipient.
\<close>

definition core_CanTransfer :: "statedb \<Rightarrow> address \<Rightarrow> int \<Rightarrow> bool" where
  "core_CanTransfer db a amount = (amount \<le> GetBalance db a)"

definition core_Transfer :: "statedb \<Rightarrow> address \<Rightarrow> address \<Rightarrow> int \<Rightarrow> mutation list" where
  "core_Transfer db sender recipient amount =
     [MSubBalance sender amount, MAddBalance recipient amount]"

text \<open>
  A \<^verbatim>\<open>ContractRef\<close> is an \<^verbatim>\<open>AccountRef\<close> or a \<^verbatim>\<open>*Contract\<close>; of a calling contract the
  functions below read its address, its \<^verbatim>\<open>CallerAddress\<close> and its value.
\<close>

datatype ContractRef =
    AccountRef address
  | ContractCaller address address "int option"

fun ref_Address :: "ContractRef \<Rightarrow> address" where
  "ref_Address (AccountRef a) = a"
| "ref_Address (ContractCaller a ca v) = a"

text \<open>
  Modelled from the spec: the struct \<^verbatim>\<open>Contract\<close> with \<^verbatim>\<open>NewContract\<close>, \<^verbatim>\<open>AsDelegate\<close>,
  \<^verbatim>\<open>SetCallCode\<close>, \<^verbatim>\<open>SetCodeOptionalHash\<close> and \<^verbatim>\<open>UseGas\<close> (core/vm/contract.go is not
  among the sources): the "fresh frame sharing or copying context per call type's
  rules", and the spec's \<^verbatim>\<open>Charge(amount) -> error if insufficient\<close>. \<^verbatim>\<open>AsDelegate\<close>
  takes caller and value from the parent contract and needs the caller to be one.
\<close>

record Contract =
  c_CallerAddress :: address
  c_caller :: ContractRef
  c_self :: address
  c_Code :: bytes
  c_CodeHash :: hash
  c_CodeAddr :: "address option"
  c_Gas :: uint64
  c_value :: "int option"

definition NewContract :: "ContractRef \<Rightarrow> address \<Rightarrow> int option \<Rightarrow> uint64 \<Rightarrow> Contract" where
  "NewContract caller object v gas =
     \<lparr>c_CallerAddress = ref_Address caller, c_caller = caller, c_self = object,
      c_Code = [], c_CodeHash = 0, c_CodeAddr = None, c_Gas = gas, c_value = v\<rparr>"

definition AsDelegate :: "Contract \<Rightarrow> Contract go" where
  "AsDelegate c =
     (case c_caller c of
        AccountRef a \<Rightarrow> Panic
      | ContractCaller a ca v \<Rightarrow> Return (c\<lparr>c_CallerAddress := ca, c_value := v\<rparr>))"

definition SetCallCode :: "address \<Rightarrow> hash \<Rightarrow> bytes \<Rightarrow> Contract \<Rightarrow> Contract" where
  "SetCallCode a h cod c = c\<lparr>c_Code := cod, c_CodeHash := h, c_CodeAddr := Some a\<rparr>"

record codeAndHash =
  cah_code :: bytes
  cah_hash :: hash

definition SetCodeOptionalHash :: "address \<Rightarrow> codeAndHash \<Rightarrow> Contract \<Rightarrow> Contract" where
  "SetCodeOptionalHash a ch c =
     c\<lparr>c_Code := cah_code ch, c_CodeHash := cah_hash ch, c_CodeAddr := Some a\<rparr>"

definition UseGas :: "uint64 \<Rightarrow> Contract \<Rightarrow> bool \<times> Contract" where
  "UseGas gas c = (if c_Gas c < gas then (False, c) else (True, c\<lparr>c_Gas := c_Gas c - gas\<rparr>))"

text \<open>
  The interpreter (core/vm/interpreter.go is not among the sources) is a parameter of
  the machine. One run returns the output, the error, the gas left in the contract and
  the effects it had on the state.
\<close>

record run_result =
  rr_ret :: bytes
  rr_err :: "vm_error option"
  rr_gas :: uint64
  rr_effects :: "effect list"

text \<open>
  The struct \<^verbatim>\<open>ZVM\<close>, without its \<^verbatim>\<open>StateDB\<close>, which the functions below take and
  return. The interpreter sees the call depth, the state, the contract, the input and
  the read-only flag. A precompile is \<^verbatim>\<open>RunPrecompiledContract\<close> applied to it: from
  input and gas to output, gas left and error. The hash function and the three
  constants of package params are parameters too. The tracer hooks of \<^verbatim>\<open>Config.Tracer\<close>
  only report; they are left out.
\<close>

record ZVM =
  Context :: BlockContext
  Origin :: address
  GasPrice :: int
  depth :: int
  interpreter :: "int \<Rightarrow> statedb \<Rightarrow> Contract \<Rightarrow> bytes \<Rightarrow> bool \<Rightarrow> run_result"
  precompile :: "address \<Rightarrow> (bytes \<Rightarrow> uint64 \<Rightarrow> bytes \<times> uint64 \<times> vm_error option) option"
  Keccak256Hash :: "bytes \<Rightarrow> hash"
  CallCreateDepth :: int
  MaxCodeSize :: nat
  CreateDataGas :: uint64

type_synonym call_result = "bytes \<times> uint64 \<times> vm_error option"

text \<open>\<^verbatim>\<open>zvm.interpreter.Run(contract, input, readOnly)\<close> with \<^verbatim>\<open>gas = contract.Gas\<close>
  read afterwards.\<close>

definition Run :: "ZVM \<Rightarrow> statedb \<Rightarrow> Contract \<Rightarrow> bytes \<Rightarrow> bool \<Rightarrow> (call_result \<times> statedb) go" where
  "Run zvm db contract input readOnly =
     (let r = interpreter zvm (depth zvm) db contract input readOnly
      in case apply_effects (rr_effects r) db of
           Panic \<Rightarrow> Panic
         | Return db' \<Rightarrow> Return ((rr_ret r, rr_gas r, rr_err r), db'))"

text \<open>The common end of \<^verbatim>\<open>Call\<close>, \<^verbatim>\<open>DelegateCall\<close> and \<^verbatim>\<open>StaticCall\<close>:
  \<^verbatim>\<open>if err != nil { RevertToSnapshot(snapshot); if err != ErrExecutionReverted { gas = 0 } }\<close>.\<close>

definition revert_on_error :: "nat \<Rightarrow> call_result \<Rightarrow> statedb \<Rightarrow> (call_result \<times> statedb) go" where
  "revert_on_error snapshot r db =
     (case r of
        (ret, gas, err) \<Rightarrow>
          if err \<noteq> None then
            (case RevertToSnapshot snapshot db of
               Panic \<Rightarrow> Panic
             | Return db' \<Rightarrow>
                 Return ((ret, (if err \<noteq> Some ErrExecutionReverted then 0 else gas), err), db'))
          else Return ((ret, gas, err), db))"

definition Call ::
  "ZVM \<Rightarrow> statedb \<Rightarrow> ContractRef \<Rightarrow> address \<Rightarrow> bytes \<Rightarrow> uint64 \<Rightarrow> int \<Rightarrow> (call_result \<times> statedb) go" where
  "Call zvm db caller addr input gas v =
     (if depth zvm > CallCreateDepth zvm then Return (([], gas, Some ErrDepth), db)
      else if v \<noteq> 0 \<and> \<not> CanTransfer (Context zvm) db (ref_Address caller) v
        then Return (([], gas, Some ErrInsufficientBalance), db)
      else
        (case Snapshot db of
           (snapshot, db1) \<Rightarrow>
             if \<not> Exist db1 addr \<and> precompile zvm addr = None \<and> v = 0
               then Return (([], gas, None), db1)
             else
               (let db2 = (if \<not> Exist db1 addr then apply_mutation (MCreateAccount addr) db1 else db1);
                    db3 = apply_mutations (Transfer (Context zvm) db2 (ref_Address caller) addr v) db2
                in case precompile zvm addr of
                     Some p \<Rightarrow> revert_on_error snapshot (p input gas) db3
                   | None \<Rightarrow>
                       (let cod = GetCode db3 addr
                        in if length cod = 0 then revert_on_error snapshot ([], gas, None) db3
                           else
                             (let contract =
                                    SetCallCode addr (GetCodeHash (Keccak256Hash zvm) db3 addr) cod
                                      (NewContract caller addr (Some v) gas)
                              in case Run zvm db3 contract input False of
                                   Panic \<Rightarrow> Panic
                                 | Return (r, db4) \<Rightarrow> revert_on_error snapshot r db4)))))"

definition DelegateCall ::
  "ZVM \<Rightarrow> statedb \<Rightarrow> ContractRef \<Rightarrow> address \<Rightarrow> bytes \<Rightarrow> uint64 \<Rightarrow> (call_result \<times> statedb) go" where
  "DelegateCall zvm db caller addr input gas =
     (if depth zvm > CallCreateDepth zvm then Return (([], gas, Some ErrDepth), db)
      else
        (case Snapshot db of
           (snapshot, db1) \<Rightarrow>
             (case precompile zvm addr of
                Some p \<Rightarrow> revert_on_error snapshot (p input gas) db1
              | None \<Rightarrow>
                  (case AsDelegate (NewContract caller (ref_Address caller) None gas) of
                     Panic \<Rightarrow> Panic
                   | Return c0 \<Rightarrow>
                       (let contract =
                              SetCallCode addr (GetCodeHash (Keccak256Hash zvm) db1 addr)
                                (GetCode db1 addr) c0
                        in case Run zvm db1 contract input False of
                             Panic \<Rightarrow> Panic
                           | Return (r, db2) \<Rightarrow> revert_on_error snapshot r db2)))))"

definition StaticCall ::
  "ZVM \<Rightarrow> statedb \<Rightarrow> ContractRef \<Rightarrow> address \<Rightarrow> bytes \<Rightarrow> uint64 \<Rightarrow> (call_result \<times> statedb) go" where
  "StaticCall zvm db caller addr input gas =
     (if depth zvm > CallCreateDepth zvm then Return (([], gas, Some ErrDepth), db)
      else
        (case Snapshot db of
           (snapshot, db1) \<Rightarrow>
             (let db2 = apply_mutation (MAddBalance addr 0) db1
              in case precompile zvm addr of
                   Some p \<Rightarrow> revert_on_error snapshot (p input gas) db2
                 | None \<Rightarrow>
                     (let contract =
                            SetCallCode addr (GetCodeHash (Keccak256Hash zvm) db2 addr)
                              (GetCode db2 addr) (NewContract caller addr (Some 0) gas)
                      in case Run zvm db2 contract input True of
                           Panic \<Rightarrow> Panic
                         | Return (r, db3) \<Rightarrow> revert_on_error snapshot r db3))))"

type_synonym create_result = "bytes \<times> address \<times> uint64 \<times> vm_error option"

text \<open>The checks of \<^verbatim>\<open>create\<close> on the output of the init code, the code deposit, and
  the revert: from the snapshot id, the output \<open>ret\<close>, the error \<open>err\<close> of the run and
  the contract afterwards.\<close>

definition create_finish ::
  "ZVM \<Rightarrow> nat \<Rightarrow> address \<Rightarrow> Contract \<Rightarrow> bytes \<Rightarrow> vm_error option \<Rightarrow> statedb \<Rightarrow>
     (create_result \<times> statedb) go" where
  "create_finish zvm snapshot addr contract ret err db =
     (let err1 = (if err = None \<and> length ret > MaxCodeSize zvm
                  then Some ErrMaxCodeSizeExceeded else err);
          err2 = (if err1 = None \<and> length ret \<ge> 1 \<and> ret ! 0 = 0xEF
                  then Some ErrInvalidCode else err1)
      in case (if err2 = None
               then (let createDataGas = of_nat (length ret) * CreateDataGas zvm
                     in case UseGas createDataGas contract of
                          (True, c) \<Rightarrow> (None, c, apply_mutation (MSetCode addr ret) db)
                        | (False, c) \<Rightarrow> (Some ErrCodeStoreOutOfGas, c, db))
               else (err2, contract, db)) of
           (err3, contract1, db1) \<Rightarrow>
             if err3 \<noteq> None \<and> err3 \<noteq> Some ErrCodeStoreOutOfGas then
               (case RevertToSnapshot snapshot db1 of
                  Panic \<Rightarrow> Panic
                | Return db2 \<Rightarrow>
                    (let contract2 = (if err3 \<noteq> Some ErrExecutionReverted
                                      then snd (UseGas (c_Gas contract1) contract1)
                                      else contract1)
                     in Return ((ret, addr, c_Gas contract2, err3), db2)))
             else Return ((ret, addr, c_Gas contract1, err3), db1))"

definition create ::
  "ZVM \<Rightarrow> statedb \<Rightarrow> ContractRef \<Rightarrow> codeAndHash \<Rightarrow> uint64 \<Rightarrow> int \<Rightarrow> address \<Rightarrow>
     (create_result \<times> statedb) go" where
  "create zvm db caller ch gas v addr =
     (if depth zvm > CallCreateDepth zvm then Return (([], 0, gas, Some ErrDepth), db)
      else if \<not> CanTransfer (Context zvm) db (ref_Address caller) v
        then Return (([], 0, gas, Some ErrInsufficientBalance), db)
      else
        (let nonce = GetNonce db (ref_Address caller)
         in if nonce + 1 < nonce then Return (([], 0, gas, Some ErrNonceUintOverflow), db)
            else
              (let db1 = apply_mutation (MSetNonce (ref_Address caller) (nonce + 1)) db;
                   db2 = apply_mutation (MAddAddressToAccessList addr) db1;
                   contractHash = GetCodeHash (Keccak256Hash zvm) db2 addr
               in if GetNonce db2 addr \<noteq> 0 \<or>
                     (contractHash \<noteq> 0 \<and> contractHash \<noteq> Keccak256Hash zvm [])
                  then Return (([], 0, 0, Some ErrContractAddressCollision), db2)
                  else
                    (case Snapshot db2 of
                       (snapshot, db3) \<Rightarrow>
                         (let db4 = apply_mutation (MCreateAccount addr) db3;
                              db5 = apply_mutation (MSetNonce addr 1) db4;
                              db6 = apply_mutations
                                      (Transfer (Context zvm) db5 (ref_Address caller) addr v) db5;
                              contract = SetCodeOptionalHash addr ch
                                           (NewContract caller addr (Some v) gas)
                          in case Run zvm db6 contract [] False of
                               Panic \<Rightarrow> Panic
                             | Return ((ret, gas', err), db7) \<Rightarrow>
                                 create_finish zvm snapshot addr (contract\<lparr>c_Gas := gas'\<rparr>)
                                   ret err db7)))))"

section \<open>Block processing\<close>

subsection \<open>The gas pool and the state transition\<close>

datatype proc_error =
    ErrGasLimitReached
  | ErrIntrinsicGas
  | ErrNonce
  | ErrInsufficientFunds
  | ErrSender nat
  | ErrValidation nat

text \<open>
  Modelled from the spec: the type \<^verbatim>\<open>core.GasPool\<close> with \<^verbatim>\<open>AddGas\<close>, \<^verbatim>\<open>SubGas\<close>, \<^verbatim>\<open>Gas\<close> and
  \<^verbatim>\<open>SetGas\<close> (core/gaspool.go is not among the sources): "a block-level gas pool is
  decremented per included transaction and must never go negative". The pool is a
  \<^verbatim>\<open>uint64\<close>; taking more than it holds is refused and leaves it as it is.
\<close>

type_synonym GasPool = uint64

definition AddGas :: "uint64 \<Rightarrow> GasPool \<Rightarrow> GasPool" where
  "AddGas amount gp = gp + amount"

definition SubGas :: "uint64 \<Rightarrow> GasPool \<Rightarrow> proc_error + GasPool" where
  "SubGas amount gp = (if gp < amount then Inl ErrGasLimitReached else Inr (gp - amount))"

text \<open>The struct \<^verbatim>\<open>core.Message\<close>, with the fields the spec gives a transaction.\<close>

record Message =
  msg_From :: address
  msg_To :: "address option"
  msg_Nonce :: uint64
  msg_Value :: int
  msg_GasLimit :: uint64
  msg_GasPrice :: int
  msg_GasFeeCap :: int
  msg_GasTipCap :: int
  msg_Data :: bytes

text \<open>The struct \<^verbatim>\<open>core.ExecutionResult\<close>; \<^verbatim>\<open>Failed\<close> is \<^verbatim>\<open>Err != nil\<close>.\<close>

record MsgResult =
  UsedGas :: uint64
  mr_Err :: "vm_error option"
  ReturnData :: bytes

definition Failed :: "MsgResult \<Rightarrow> bool" where
  "Failed r = (mr_Err r \<noteq> None)"

text \<open>
  What the execution of a message gives once its gas is bought: an error of the checks
  made before the execution starts (the intrinsic gas), or else the error of the virtual
  machine, the output and the gas that is left; in both cases the effects on the state,
  and the block numbers that the \<^verbatim>\<open>BLOCKHASH\<close> instruction asked \<^verbatim>\<open>GetHash\<close> for.
\<close>

record exec_out =
  xo_invalid :: "proc_error option"
  xo_vmerr :: "vm_error option"
  xo_ret :: bytes
  xo_gasRemaining :: uint64
  xo_effects :: "effect list"
  xo_hashQueries :: "uint64 list"

text \<open>
  The parts of the state transition that the spec leaves open are parameters:
  \<^verbatim>\<open>TransactionToMessage\<close> (sender recovery, step a of the spec), the checks of nonce and
  balance (steps b and c), and the execution with the intrinsic gas (steps d and e).
  \<^verbatim>\<open>machine\<close> holds the interpreter, the precompiles and the constants that
  \<^verbatim>\<open>vm.NewZVM\<close> takes from the chain configuration.
\<close>

record transition =
  TransactionToMessage :: "Transaction \<Rightarrow> int option \<Rightarrow> proc_error + Message"
  preCheck :: "statedb \<Rightarrow> Message \<Rightarrow> proc_error option"
  execute :: "ZVM \<Rightarrow> Message \<Rightarrow> statedb \<Rightarrow> exec_out"
  machine :: ZVM
  tx_codec :: codec

text \<open>
  Modelled from the spec: \<^verbatim>\<open>core.ApplyMessage\<close> (core/state_transition.go is not among
  the sources). A message that fails the checks of nonce and balance is refused with
  nothing changed. "A transaction that would exceed the remaining block gas is excluded,
  not executed": the gas limit is taken from the pool first. Then the message is
  executed, and the gas that is left goes back to the pool, so that the pool is
  "decremented per included transaction" by the gas used. An error of the intrinsic gas
  check comes after the gas was bought: pool and state are left as they then are, for
  the caller to restore. The result is the error or the execution result, the pool, the
  state and the block numbers asked for.
\<close>

definition ApplyMessage ::
  "transition \<Rightarrow> ZVM \<Rightarrow> Message \<Rightarrow> GasPool \<Rightarrow> statedb \<Rightarrow>
     ((proc_error + MsgResult) \<times> GasPool \<times> statedb \<times> uint64 list) go" where
  "ApplyMessage tr zvm msg gp db =
     (case preCheck tr db msg of
        Some e \<Rightarrow> Return (Inl e, gp, db, [])
      | None \<Rightarrow>
          (case SubGas (msg_GasLimit msg) gp of
             Inl e \<Rightarrow> Return (Inl e, gp, db, [])
           | Inr gp1 \<Rightarrow>
               (let x = execute tr zvm msg db
                in case apply_effects (xo_effects x) db of
                     Panic \<Rightarrow> Panic
                   | Return db1 \<Rightarrow>
                       (case xo_invalid x of
                          Some e \<Rightarrow> Return (Inl e, gp1, db1, xo_hashQueries x)
                        | None \<Rightarrow>
                            Return
                              (Inr \<lparr>UsedGas = msg_GasLimit msg - xo_gasRemaining x,
                                    mr_Err = xo_vmerr x, ReturnData = xo_ret x\<rparr>,
                               AddGas (xo_gasRemaining x) gp1, db1, xo_hashQueries x)))))"

subsection \<open>More of the state database\<close>

text \<open>
  Modelled from the spec: \<^verbatim>\<open>SetTxContext\<close>, \<^verbatim>\<open>TxIndex\<close>, \<^verbatim>\<open>GetLogs\<close>, \<^verbatim>\<open>Finalise\<close>,
  \<^verbatim>\<open>IntermediateRoot\<close>, \<^verbatim>\<open>Commit\<close> and \<^verbatim>\<open>state.New\<close>. The logs of a transaction are those
  emitted under its hash. \<^verbatim>\<open>Finalise\<close> ends a transaction: of the accounts the journal
  names, those destroyed and, when asked, those that are empty are removed, and
  journal and checkpoints are dropped (the journal "is discarded" once its mutations are
  handed on). \<^verbatim>\<open>IntermediateRoot\<close> finalises and hashes; only the finalising changes the
  state. \<^verbatim>\<open>Commit\<close> finalises and gives the root, which is "a pure deterministic function
  of all (address, account) pairs": the function \<open>root\<close>, a parameter, which may fail.
  \<^verbatim>\<open>state.New\<close> opens a new state database on the committed accounts.
\<close>

definition SetTxContext :: "hash \<Rightarrow> nat \<Rightarrow> statedb \<Rightarrow> statedb" where
  "SetTxContext h ti s = s\<lparr>thash := h, txIndex := ti\<rparr>"

definition GetLogs :: "hash \<Rightarrow> statedb \<Rightarrow> log_entry list" where
  "GetLogs h s = filter (\<lambda>l. log_txhash l = h) (logs (db_world s))"

fun journal_address :: "journal_entry \<Rightarrow> address list" where
  "journal_address (JAccount a p) = [a]"
| "journal_address JLog = []"
| "journal_address (JAccessList a) = []"

definition is_empty :: "account \<Rightarrow> bool" where
  "is_empty x = (acc_nonce x = 0 \<and> acc_balance x = 0 \<and> acc_code x = [])"

definition Finalise :: "bool \<Rightarrow> statedb \<Rightarrow> statedb" where
  "Finalise deleteEmptyObjects s =
     s\<lparr>db_world := (db_world s)
          \<lparr>accounts :=
             (\<lambda>a. case accounts (db_world s) a of
                     None \<Rightarrow> None
                   | Some x \<Rightarrow>
                       if a \<in> set (concat (map journal_address (journal s))) \<and>
                          (acc_selfdestructed x \<or> (deleteEmptyObjects \<and> is_empty x))
                       then None else Some x)\<rparr>,
       journal := [], validRevisions := []\<rparr>"

definition IntermediateRoot :: "bool \<Rightarrow> statedb \<Rightarrow> statedb" where
  "IntermediateRoot deleteEmptyObjects s = Finalise deleteEmptyObjects s"

definition Commit ::
  "((address \<rightharpoonup> account) \<Rightarrow> nat + hash) \<Rightarrow> bool \<Rightarrow> statedb \<Rightarrow> (nat + hash) \<times> statedb" where
  "Commit root deleteEmptyObjects s =
     (let s1 = IntermediateRoot deleteEmptyObjects s
      in (root (accounts (db_world s1)), s1))"

definition state_New :: "(address \<rightharpoonup> account) \<Rightarrow> statedb" where
  "state_New accs =
     \<lparr>db_world = \<lparr>accounts = accs, logs = [], accessList = {}\<rparr>,
      journal = [], validRevisions = [], nextRevisionId = 0, thash = 0, txIndex = 0\<rparr>"

subsection \<open>The transition tool (cmd/qrvm/internal/t8ntool/execution.go)\<close>

text \<open>
  A Go map is a list of pairs with distinct keys; the order of the list is the order in
  which this run of the program ranges over the map, which Go leaves open.
\<close>

record GenesisAccount =
  ga_Code :: bytes
  ga_Storage :: "(hash \<times> hash) list"
  ga_Balance :: int
  ga_Nonce :: uint64

type_synonym GenesisAlloc = "(address \<times> GenesisAccount) list"

record Withdrawal =
  w_Address :: address
  w_Amount :: uint64

text \<open>The struct \<^verbatim>\<open>stEnv\<close>, with the fields that \<^verbatim>\<open>Apply\<close> reads. A nil map and a nil
  slice are \<open>None\<close>.\<close>

record stEnv =
  env_Coinbase :: address
  env_Random :: "int option"
  env_GasLimit :: uint64
  env_Number :: uint64
  env_Timestamp :: uint64
  env_BlockHashes :: "(uint64 \<rightharpoonup> hash) option"
  env_Withdrawals :: "Withdrawal list option"
  env_BaseFee :: "int option"

record Prestate =
  pre_Env :: stEnv
  pre_Pre :: GenesisAlloc

text \<open>\<^verbatim>\<open>MakePreState\<close>: range over the accounts, and for each over its storage; then
  "commit and re-open to start with a clean state". The errors of commit and re-open
  are dropped by the source.\<close>

definition MakePreState_account :: "address \<times> GenesisAccount \<Rightarrow> statedb \<Rightarrow> statedb" where
  "MakePreState_account e s =
     (case e of
        (addr, a) \<Rightarrow>
          fold (\<lambda>kv. apply_mutation (MSetState addr (fst kv) (snd kv))) (ga_Storage a)
            (apply_mutation (MSetBalance addr (ga_Balance a))
               (apply_mutation (MSetNonce addr (ga_Nonce a))
                  (apply_mutation (MSetCode addr (ga_Code a)) s))))"

definition MakePreState :: "GenesisAlloc \<Rightarrow> statedb" where
  "MakePreState accs =
     (let s = fold MakePreState_account accs (state_New Map.empty)
      in state_New (accounts (db_world (Finalise False s))))"

text \<open>The closure \<^verbatim>\<open>getHash\<close> of \<^verbatim>\<open>Apply\<close>: the hash it returns, and the error it
  leaves in \<^verbatim>\<open>hashError\<close>.\<close>

datatype hash_error = NoBlockhashes uint64 | BlockhashMissing uint64

definition getHash :: "stEnv \<Rightarrow> uint64 \<Rightarrow> hash" where
  "getHash env num =
     (case env_BlockHashes env of
        None \<Rightarrow> 0
      | Some m \<Rightarrow> (case m num of None \<Rightarrow> 0 | Some h \<Rightarrow> h))"

definition getHash_error :: "stEnv \<Rightarrow> uint64 \<Rightarrow> hash_error option \<Rightarrow> hash_error option" where
  "getHash_error env num hashError =
     (case env_BlockHashes env of
        None \<Rightarrow> Some (NoBlockhashes num)
      | Some m \<Rightarrow> (case m num of None \<Rightarrow> Some (BlockhashMissing num) | Some h \<Rightarrow> hashError))"

record Receipt =
  r_Type :: byte
  r_PostState :: bytes
  r_Status :: uint64
  r_CumulativeGasUsed :: uint64
  r_Bloom :: bytes
  r_Logs :: "log_entry list"
  r_TxHash :: hash
  r_ContractAddress :: address
  r_GasUsed :: uint64
  r_BlockHash :: hash
  r_BlockNumber :: "int option"
  r_TransactionIndex :: nat

definition ReceiptStatusFailed :: uint64 where
  "ReceiptStatusFailed = 0"

definition ReceiptStatusSuccessful :: uint64 where
  "ReceiptStatusSuccessful = 1"

text \<open>The hash functions and the tracer factory that \<^verbatim>\<open>Apply\<close> and \<^verbatim>\<open>Process\<close> use are
  parameters: \<^verbatim>\<open>crypto.CreateAddress\<close>, \<^verbatim>\<open>types.CreateBloom\<close>, \<^verbatim>\<open>types.DeriveSha\<close> on
  transactions, receipts and withdrawals, \<^verbatim>\<open>rlpHash\<close> on logs, the state root, and
  \<^verbatim>\<open>getTracerFn\<close>, of which only the error matters here.\<close>

record hashing =
  CreateAddress :: "address \<Rightarrow> uint64 \<Rightarrow> address"
  CreateBloom :: "Receipt list \<Rightarrow> bytes"
  DeriveSha_txs :: "Transaction list \<Rightarrow> hash"
  DeriveSha_receipts :: "Receipt list \<Rightarrow> hash"
  DeriveSha_withdrawals :: "Withdrawal list \<Rightarrow> hash"
  rlpHash_logs :: "log_entry list \<Rightarrow> hash"
  state_root :: "(address \<rightharpoonup> account) \<Rightarrow> nat + hash"
  getTracerFn :: "nat \<Rightarrow> hash \<Rightarrow> nat option"

record rejectedTx =
  rej_Index :: nat
  rej_Err :: proc_error

text \<open>The struct \<^verbatim>\<open>ExecutionResult\<close> of the tool.\<close>

record ExecutionResult =
  er_StateRoot :: hash
  er_TxRoot :: hash
  er_ReceiptRoot :: hash
  er_LogsHash :: hash
  er_Bloom :: bytes
  er_Receipts :: "Receipt list"
  er_Rejected :: "rejectedTx list"
  er_GasUsed :: uint64
  er_BaseFee :: "int option"
  er_WithdrawalsRoot :: "hash option"

datatype apply_error =
    ErrorTracer nat
  | ErrorMissingBlockhash hash_error
  | ErrorQRVM nat

text \<open>The accessors \<^verbatim>\<open>tx.Hash()\<close> (the cache it fills is not kept), \<^verbatim>\<open>tx.Nonce()\<close>.\<close>

definition tx_Hash :: "codec \<Rightarrow> Transaction \<Rightarrow> hash go" where
  "tx_Hash cd tx = (case Hash cd tx of Panic \<Rightarrow> Panic | Return (h, tx') \<Rightarrow> Return h)"

fun TxData_nonce :: "TxData \<Rightarrow> uint64" where
  "TxData_nonce (LegacyTxData l) = lt_Nonce l"
| "TxData_nonce (DynamicFeeTxData d) = dt_Nonce d"

definition tx_Nonce :: "Transaction \<Rightarrow> uint64 go" where
  "tx_Nonce tx = (case inner tx of None \<Rightarrow> Panic | Some i \<Rightarrow> Return (TxData_nonce i))"

text \<open>\<^verbatim>\<open>vm.NewZVM\<close> with \<^verbatim>\<open>NewZVMTxContext(msg)\<close>: the machine for a block context and
  a message.\<close>

definition NewZVM :: "transition \<Rightarrow> BlockContext \<Rightarrow> address \<Rightarrow> int \<Rightarrow> ZVM" where
  "NewZVM tr ctx origin price =
     (machine tr)\<lparr>Context := ctx, Origin := origin, GasPrice := price, depth := 0\<rparr>"

text \<open>The receipt of an applied transaction up to its bloom filter, as \<^verbatim>\<open>Apply\<close> and
  \<^verbatim>\<open>applyTransaction\<close> both build it; the fields not yet set hold their zero values.\<close>

definition new_receipt ::
  "hashing \<Rightarrow> byte \<Rightarrow> hash \<Rightarrow> uint64 \<Rightarrow> Message \<Rightarrow> MsgResult \<Rightarrow> address \<Rightarrow> uint64 \<Rightarrow>
     statedb \<Rightarrow> Receipt" where
  "new_receipt hs ty h nonce msg msgResult origin gasUsed db =
     (let receipt =
            \<lparr>r_Type = ty, r_PostState = [],
             r_Status = (if Failed msgResult then ReceiptStatusFailed else ReceiptStatusSuccessful),
             r_CumulativeGasUsed = gasUsed, r_Bloom = [], r_Logs = GetLogs h db,
             r_TxHash = h,
             r_ContractAddress = (if msg_To msg = None then CreateAddress hs origin nonce else 0),
             r_GasUsed = UsedGas msgResult, r_BlockHash = 0, r_BlockNumber = None,
             r_TransactionIndex = 0\<rparr>
      in receipt\<lparr>r_Bloom := CreateBloom hs [receipt]\<rparr>)"

text \<open>In \<^verbatim>\<open>Apply\<close> the transaction index is set next; \<^verbatim>\<open>BlockHash\<close> and \<^verbatim>\<open>BlockNumber\<close>
  stay unset.\<close>

definition Apply_receipt ::
  "hashing \<Rightarrow> byte \<Rightarrow> hash \<Rightarrow> uint64 \<Rightarrow> Message \<Rightarrow> MsgResult \<Rightarrow> address \<Rightarrow> uint64 \<Rightarrow> nat \<Rightarrow>
     statedb \<Rightarrow> Receipt" where
  "Apply_receipt hs ty h nonce msg msgResult origin gasUsed ti db =
     (new_receipt hs ty h nonce msg msgResult origin gasUsed db)\<lparr>r_TransactionIndex := ti\<rparr>"

text \<open>The variables of the loop of \<^verbatim>\<open>Apply\<close>.\<close>

record apply_state =
  as_statedb :: statedb
  as_gaspool :: GasPool
  as_rejectedTxs :: "rejectedTx list"
  as_includedTxs :: "Transaction list"
  as_gasUsed :: uint64
  as_receipts :: "Receipt list"
  as_txIndex :: nat
  as_hashError :: "hash_error option"

text \<open>One round of the loop of \<^verbatim>\<open>Apply\<close>, for the transaction \<open>tx\<close> at index \<open>i\<close>: the
  variables afterwards, or the error that \<^verbatim>\<open>Apply\<close> returns. First the end of the round
  for a transaction that was applied: \<^verbatim>\<open>hashError\<close> is tested, then the receipt is
  built.\<close>

definition Apply_included ::
  "transition \<Rightarrow> hashing \<Rightarrow> Transaction \<Rightarrow> hash \<Rightarrow> Message \<Rightarrow> ZVM \<Rightarrow> MsgResult \<Rightarrow> GasPool \<Rightarrow>
     statedb \<Rightarrow> hash_error option \<Rightarrow> apply_state \<Rightarrow> (apply_error + apply_state) go" where
  "Apply_included tr hs tx h msg qrvm msgResult gp db2 hashError st =
     (case hashError of
        Some herr \<Rightarrow> Return (Inl (ErrorMissingBlockhash herr))
      | None \<Rightarrow>
          (case Type (tx_codec tr) tx of
             Panic \<Rightarrow> Panic
           | Return ty \<Rightarrow>
               (case tx_Nonce tx of
                  Panic \<Rightarrow> Panic
                | Return nonce \<Rightarrow>
                    (let gasUsed = as_gasUsed st + UsedGas msgResult;
                         db3 = Finalise True db2;
                         receipt = Apply_receipt hs ty h nonce msg msgResult (Origin qrvm)
                                     gasUsed (as_txIndex st) db3
                     in Return (Inr
                          \<lparr>as_statedb = db3,
                           as_gaspool = gp,
                           as_rejectedTxs = as_rejectedTxs st,
                           as_includedTxs = as_includedTxs st @ [tx],
                           as_gasUsed = gasUsed,
                           as_receipts = as_receipts st @ [receipt],
                           as_txIndex = as_txIndex st + 1,
                           as_hashError = None\<rparr>)))))"

definition Apply_tx ::
  "transition \<Rightarrow> hashing \<Rightarrow> stEnv \<Rightarrow> BlockContext \<Rightarrow> nat \<Rightarrow> Transaction \<Rightarrow> apply_state \<Rightarrow>
     (apply_error + apply_state) go" where
  "Apply_tx tr hs env vmContext i tx st =
     (case tx_Hash (tx_codec tr) tx of
        Panic \<Rightarrow> Panic
      | Return h \<Rightarrow>
          (case TransactionToMessage tr tx (env_BaseFee env) of
             Inl err \<Rightarrow>
               Return (Inr (st\<lparr>as_rejectedTxs :=
                                 as_rejectedTxs st @ [\<lparr>rej_Index = i, rej_Err = err\<rparr>]\<rparr>))
           | Inr msg \<Rightarrow>
               (case getTracerFn hs (as_txIndex st) h of
                  Some err \<Rightarrow> Return (Inl (ErrorTracer err))
                | None \<Rightarrow>
                    (let db0 = SetTxContext h (as_txIndex st) (as_statedb st);
                         prevGas = as_gaspool st;
                         qrvm = NewZVM tr vmContext (msg_From msg) (msg_GasPrice msg)
                     in case Snapshot db0 of
                          (snapshot, db1) \<Rightarrow>
                            (case ApplyMessage tr qrvm msg (as_gaspool st) db1 of
                               Panic \<Rightarrow> Panic
                             | Return (Inl err, gp, db2, qs) \<Rightarrow>
                                 (case RevertToSnapshot snapshot db2 of
                                    Panic \<Rightarrow> Panic
                                  | Return db3 \<Rightarrow>
                                      Return (Inr (st
                                        \<lparr>as_statedb := db3,
                                         as_gaspool := prevGas,
                                         as_rejectedTxs :=
                                           as_rejectedTxs st @ [\<lparr>rej_Index = i, rej_Err = err\<rparr>],
                                         as_hashError :=
                                           fold (getHash_error env) qs (as_hashError st)\<rparr>)))
                             | Return (Inr msgResult, gp, db2, qs) \<Rightarrow>
                                 Apply_included tr hs tx h msg qrvm msgResult gp db2
                                   (fold (getHash_error env) qs (as_hashError st)) st)))))"

text \<open>The loop \<^verbatim>\<open>for i, tx := range txs\<close> of \<^verbatim>\<open>Apply\<close>, from index \<open>i\<close> on.\<close>

fun Apply_loop ::
  "transition \<Rightarrow> hashing \<Rightarrow> stEnv \<Rightarrow> BlockContext \<Rightarrow> nat \<Rightarrow> Transaction list \<Rightarrow> apply_state \<Rightarrow>
     (apply_error + apply_state) go" where
  "Apply_loop tr hs env vmContext i [] st = Return (Inr st)"
| "Apply_loop tr hs env vmContext i (tx # txs) st =
     (case Apply_tx tr hs env vmContext i tx st of
        Panic \<Rightarrow> Panic
      | Return (Inl err) \<Rightarrow> Return (Inl err)
      | Return (Inr st') \<Rightarrow> Apply_loop tr hs env vmContext (i + 1) txs st')"

text \<open>\<^verbatim>\<open>params.GPlanck\<close>\<close>

definition GPlanck :: int where
  "GPlanck = 1000000000"

definition Apply_vmContext :: "stEnv \<Rightarrow> BlockContext" where
  "Apply_vmContext env =
     \<lparr>CanTransfer = core_CanTransfer, Transfer = core_Transfer, GetHash = getHash env,
      Coinbase = env_Coinbase env, GasLimit = env_GasLimit env,
      BlockNumber = uint (env_Number env), Time = env_Timestamp env,
      BaseFee = env_BaseFee env,
      Random = (case env_Random env of None \<Rightarrow> None | Some r \<Rightarrow> Some (word_of_int \<bar>r\<bar>))\<rparr>"

text \<open>\<^verbatim>\<open>Prestate.Apply\<close>: the new state database and the execution result, or an
  error. A negative mining reward means no reward.\<close>

definition Apply ::
  "transition \<Rightarrow> hashing \<Rightarrow> Prestate \<Rightarrow> Transaction list \<Rightarrow> int \<Rightarrow>
     (apply_error + statedb \<times> ExecutionResult) go" where
  "Apply tr hs pre txs miningReward =
     (let env = pre_Env pre;
          vmContext = Apply_vmContext env;
          st0 = \<lparr>as_statedb = MakePreState (pre_Pre pre),
                 as_gaspool = AddGas (env_GasLimit env) 0,
                 as_rejectedTxs = [], as_includedTxs = [], as_gasUsed = 0,
                 as_receipts = [], as_txIndex = 0, as_hashError = None\<rparr>
      in case Apply_loop tr hs env vmContext 0 txs st0 of
           Panic \<Rightarrow> Panic
         | Return (Inl err) \<Rightarrow> Return (Inl err)
         | Return (Inr st) \<Rightarrow>
             (let db1 = IntermediateRoot True (as_statedb st);
                  db2 = (if miningReward \<ge> 0
                         then apply_mutation (MAddBalance (env_Coinbase env) miningReward) db1
                         else db1);
                  db3 = fold (\<lambda>w. apply_mutation
                                 (MAddBalance (w_Address w) (uint (w_Amount w) * GPlanck)))
                          (case env_Withdrawals env of None \<Rightarrow> [] | Some ws \<Rightarrow> ws) db2
              in case Commit (state_root hs) True db3 of
                   (Inl e, db4) \<Rightarrow> Return (Inl (ErrorQRVM e))
                 | (Inr root, db4) \<Rightarrow>
                     Return (Inr
                       (state_New (accounts (db_world db4)),
                        \<lparr>er_StateRoot = root,
                         er_TxRoot = DeriveSha_txs hs (as_includedTxs st),
                         er_ReceiptRoot = DeriveSha_receipts hs (as_receipts st),
                         er_LogsHash = rlpHash_logs hs (logs (db_world db4)),
                         er_Bloom = CreateBloom hs (as_receipts st),
                         er_Receipts = as_receipts st,
                         er_Rejected = as_rejectedTxs st,
                         er_GasUsed = as_gasUsed st,
                         er_BaseFee = BaseFee vmContext,
                         er_WithdrawalsRoot =
                           (case env_Withdrawals env of
                              None \<Rightarrow> None
                            | Some ws \<Rightarrow> Some (DeriveSha_withdrawals hs ws))\<rparr>))))"

subsection \<open>The state processor (core/state_processor.go)\<close>

text \<open>Header and block, with the fields that \<^verbatim>\<open>Process\<close> reads; \<open>b_hash\<close> is what
  \<^verbatim>\<open>block.Hash()\<close> returns.\<close>

record Header =
  h_Coinbase :: address
  h_Number :: int
  h_GasLimit :: uint64
  h_Time :: uint64
  h_BaseFee :: "int option"

record Block =
  b_header :: Header
  b_transactions :: "Transaction list"
  b_withdrawals :: "Withdrawal list"
  b_hash :: hash

text \<open>The struct \<^verbatim>\<open>StateProcessor\<close>: the state transition and the hash functions as
  above, \<^verbatim>\<open>NewZVMBlockContext\<close> for the chain of the processor, and \<^verbatim>\<open>Finalize\<close> of its
  consensus engine, which changes the state through the methods of \<^verbatim>\<open>StateDB\<close>.\<close>

record StateProcessor =
  sp_transition :: transition
  sp_hashing :: hashing
  NewZVMBlockContext :: "Header \<Rightarrow> BlockContext"
  engine_Finalize :: "Header \<Rightarrow> statedb \<Rightarrow> Transaction list \<Rightarrow> Withdrawal list \<Rightarrow> mutation list"

text \<open>\<^verbatim>\<open>applyTransaction\<close>: the receipt with the pool, the state and the gas used so far
  as they are afterwards, or the error of \<^verbatim>\<open>ApplyMessage\<close>.\<close>

definition applyTransaction ::
  "transition \<Rightarrow> hashing \<Rightarrow> Message \<Rightarrow> GasPool \<Rightarrow> statedb \<Rightarrow> int \<Rightarrow> hash \<Rightarrow> Transaction \<Rightarrow>
     uint64 \<Rightarrow> ZVM \<Rightarrow> (proc_error + Receipt \<times> GasPool \<times> statedb \<times> uint64) go" where
  "applyTransaction tr hs msg gp db blockNumber blockHash tx usedGas zvm =
     (let zvm1 = zvm\<lparr>Origin := msg_From msg, GasPrice := msg_GasPrice msg\<rparr>
      in case ApplyMessage tr zvm1 msg gp db of
           Panic \<Rightarrow> Panic
         | Return (Inl err, gp1, db1, qs) \<Rightarrow> Return (Inl err)
         | Return (Inr result, gp1, db1, qs) \<Rightarrow>
             (let db2 = Finalise True db1;
                  usedGas1 = usedGas + UsedGas result
              in case Type (tx_codec tr) tx of
                   Panic \<Rightarrow> Panic
                 | Return ty \<Rightarrow>
                     (case tx_Hash (tx_codec tr) tx of
                        Panic \<Rightarrow> Panic
                      | Return h \<Rightarrow>
                          (case tx_Nonce tx of
                             Panic \<Rightarrow> Panic
                           | Return nonce \<Rightarrow>
                               Return (Inr
                                 ((new_receipt hs ty h nonce msg result (Origin zvm1) usedGas1 db2)
                                    \<lparr>r_BlockHash := blockHash,
                                     r_BlockNumber := Some blockNumber,
                                     r_TransactionIndex := txIndex db2\<rparr>,
                                  gp1, db2, usedGas1))))))"

text \<open>The variables of the loop of \<^verbatim>\<open>Process\<close>.\<close>

record process_state =
  ps_statedb :: statedb
  ps_gp :: GasPool
  ps_usedGas :: uint64
  ps_receipts :: "Receipt list"
  ps_allLogs :: "log_entry list"

text \<open>The loop of \<^verbatim>\<open>Process\<close> from index \<open>i\<close> on. An error ends it: \<^verbatim>\<open>Process\<close> then
  returns the error, with the index of the transaction, and nothing else.\<close>

fun Process_loop ::
  "StateProcessor \<Rightarrow> Block \<Rightarrow> ZVM \<Rightarrow> nat \<Rightarrow> Transaction list \<Rightarrow> process_state \<Rightarrow>
     (nat \<times> proc_error + process_state) go" where
  "Process_loop p block vmenv i [] st = Return (Inr st)"
| "Process_loop p block vmenv i (tx # txs) st =
     (case tx_Hash (tx_codec (sp_transition p)) tx of
        Panic \<Rightarrow> Panic
      | Return h \<Rightarrow>
          (case TransactionToMessage (sp_transition p) tx (h_BaseFee (b_header block)) of
             Inl err \<Rightarrow> Return (Inl (i, err))
           | Inr msg \<Rightarrow>
               (case applyTransaction (sp_transition p) (sp_hashing p) msg (ps_gp st)
                       (SetTxContext h i (ps_statedb st)) (h_Number (b_header block))
                       (b_hash block) tx (ps_usedGas st) vmenv of
                  Panic \<Rightarrow> Panic
                | Return (Inl err) \<Rightarrow> Return (Inl (i, err))
                | Return (Inr (receipt, gp, db, usedGas)) \<Rightarrow>
                    Process_loop p block vmenv (i + 1) txs
                      \<lparr>ps_statedb = db, ps_gp = gp, ps_usedGas = usedGas,
                       ps_receipts = ps_receipts st @ [receipt],
                       ps_allLogs = ps_allLogs st @ r_Logs receipt\<rparr>)))"

text \<open>\<^verbatim>\<open>StateProcessor.Process\<close>: receipts, logs and gas used, with the state database
  as it is afterwards, or the error.\<close>

definition Process ::
  "StateProcessor \<Rightarrow> Block \<Rightarrow> statedb \<Rightarrow>
     (nat \<times> proc_error + Receipt list \<times> log_entry list \<times> uint64 \<times> statedb) go" where
  "Process p block db =
     (let header = b_header block;
          gp = AddGas (h_GasLimit header) 0;
          vmenv = NewZVM (sp_transition p) (NewZVMBlockContext p header) 0 0
      in case Process_loop p block vmenv 0 (b_transactions block)
                \<lparr>ps_statedb = db, ps_gp = gp, ps_usedGas = 0, ps_receipts = [],
                 ps_allLogs = []\<rparr> of
           Panic \<Rightarrow> Panic
         | Return (Inl err) \<Rightarrow> Return (Inl err)
         | Return (Inr st) \<Rightarrow>
             Return (Inr (ps_receipts st, ps_allLogs st, ps_usedGas st,
               apply_mutations
                 (engine_Finalize p header (ps_statedb st) (b_transactions block)
                    (b_withdrawals block))
                 (ps_statedb st))))"

section \<open>Predicates of the statements\<close>

text \<open>
  The revision ids handed out so far are in increasing order and below the next one. A
  fresh state database satisfies this, and every operation of the state database keeps it.
\<close>

definition wf_statedb :: "statedb \<Rightarrow> bool" where
  "wf_statedb s =
     (sorted_wrt (<) (map fst (validRevisions s)) \<and>
      (\<forall>r \<in> set (validRevisions s). fst r < nextRevisionId s))"

text \<open>
  \<open>extends s s'\<close>: \<open>s'\<close> is \<open>s\<close> with more journal entries and more revisions, and undoing
  the new journal entries, newest first, gives back the world of \<open>s\<close>.
\<close>

definition extends :: "statedb \<Rightarrow> statedb \<Rightarrow> bool" where
  "extends s s' =
     (\<exists>es vs. journal s' = journal s @ es \<and> foldr undo es (db_world s') = db_world s \<and>
        validRevisions s' = validRevisions s @ vs \<and>
        nextRevisionId s \<le> nextRevisionId s' \<and> thash s' = thash s \<and> txIndex s' = txIndex s)"

text \<open>\<open>same_state s t\<close>: \<open>t\<close> is \<open>s\<close> but for the counter of revision ids.\<close>

definition same_state :: "statedb \<Rightarrow> statedb \<Rightarrow> bool" where
  "same_state s t = (db_world t = db_world s \<and> journal t = journal s \<and>
     validRevisions t = validRevisions s \<and> thash t = thash s \<and> txIndex t = txIndex s)"

text \<open>The three entry checks of \<^verbatim>\<open>create\<close> pass: depth, balance, nonce overflow.\<close>

definition entry_ok :: "ZVM \<Rightarrow> statedb \<Rightarrow> ContractRef \<Rightarrow> int \<Rightarrow> bool" where
  "entry_ok zvm s caller v =
     (\<not> depth zvm > CallCreateDepth zvm \<and> CanTransfer (Context zvm) s (ref_Address caller) v \<and>
      \<not> GetNonce s (ref_Address caller) + 1 < GetNonce s (ref_Address caller))"

text \<open>The state of \<^verbatim>\<open>create\<close> when it tests for a collision and takes its snapshot:
  the caller's nonce is incremented and the new address is on the access list.\<close>

definition create_entry :: "statedb \<Rightarrow> address \<Rightarrow> address \<Rightarrow> statedb" where
  "create_entry s caller addr =
     apply_mutation (MAddAddressToAccessList addr)
       (apply_mutation (MSetNonce caller (GetNonce s caller + 1)) s)"

text \<open>The collision test of \<^verbatim>\<open>create\<close>.\<close>

definition collision :: "ZVM \<Rightarrow> statedb \<Rightarrow> address \<Rightarrow> bool" where
  "collision zvm s addr =
     (GetNonce s addr \<noteq> 0 \<or>
      (GetCodeHash (Keccak256Hash zvm) s addr \<noteq> 0 \<and>
       GetCodeHash (Keccak256Hash zvm) s addr \<noteq> Keccak256Hash zvm []))"


text \<open>The run of the init code that \<^verbatim>\<open>create\<close> makes once its entry checks and the
  collision test have passed: the state it starts in (snapshot taken, account created
  with nonce 1, value transferred) and the result of the interpreter.\<close>

definition create_init_state :: "ZVM \<Rightarrow> statedb \<Rightarrow> ContractRef \<Rightarrow> int \<Rightarrow> address \<Rightarrow> statedb" where
  "create_init_state zvm s caller v addr =
     (let s3 = snd (Snapshot (create_entry s (ref_Address caller) addr));
          s5 = apply_mutation (MSetNonce addr 1) (apply_mutation (MCreateAccount addr) s3)
      in apply_mutations (Transfer (Context zvm) s5 (ref_Address caller) addr v) s5)"

definition create_init_run ::
  "ZVM \<Rightarrow> statedb \<Rightarrow> ContractRef \<Rightarrow> codeAndHash \<Rightarrow> uint64 \<Rightarrow> int \<Rightarrow> address \<Rightarrow> run_result" where
  "create_init_run zvm s caller ch gas v addr =
     interpreter zvm (depth zvm) (create_init_state zvm s caller v addr)
       (SetCodeOptionalHash addr ch (NewContract caller addr (Some v) gas)) [] False"




text \<open>What the sources leave to the state transition: an execution never leaves more gas
  than the gas limit of its message (the spec: "no transaction's gas-used exceeds its own
  gas limit").\<close>

definition gas_within_limit :: "transition \<Rightarrow> bool" where
  "gas_within_limit tr = (\<forall>zvm msg db. xo_gasRemaining (execute tr zvm msg db) \<le> msg_GasLimit msg)"

text \<open>The pool and the gas used so far add up to the gas limit of the block, and the
  gas used so far is the sum over the receipts.\<close>

definition gas_inv :: "uint64 \<Rightarrow> GasPool \<Rightarrow> uint64 \<Rightarrow> Receipt list \<Rightarrow> bool" where
  "gas_inv limit gp used rs =
     (unat gp + unat used = unat limit \<and>
      sum_list (map (\<lambda>r. unat (r_GasUsed r)) rs) = unat used)"




section \<open>Concrete inputs\<close>

text \<open>A transaction and a coder that knows this transaction only.\<close>

definition toy_tx :: DynamicFeeTx where
  "toy_tx = \<lparr>dt_ChainID = 1, dt_Nonce = 0, dt_GasTipCap = 1, dt_GasFeeCap = 1, dt_Gas = 21000,
     dt_To = None, dt_Value = 0, dt_Data = [], dt_AccessList = [], dt_PublicKey = [],
     dt_Signature = []\<rparr>"

definition toy_codec :: codec where
  "toy_codec = \<lparr>rlp_encode = (\<lambda>d. if d = toy_tx then Inr [0xC0] else Inl (ErrRlp 0)),
     rlp_decode = (\<lambda>b. if b = [0xC0] then Inr toy_tx else Inl (ErrRlp 1)),
     dyn_copy = (\<lambda>d. d),
     prefixedRlpHash = (\<lambda>ty i. 0),
     LegacyTxType = 0,
     DilithiumPublicKeyLength = 2,
     DilithiumSignatureLength = 3\<rparr>"

text \<open>
  A machine for concrete runs. Its interpreter knows two instructions, each costing 100
  gas: \<^verbatim>\<open>0xF3\<close> writes a storage slot, emits a log in a nested frame and returns the rest
  of the code as output; \<^verbatim>\<open>0xFD\<close> does the same and then reverts. In read-only mode both
  fail with \<^verbatim>\<open>ErrWriteProtection\<close>. Empty code returns at once. Address 4 is a
  precompile that copies its input for 15 gas. The constants are those of go-ethereum.
\<close>

definition test_keccak :: "bytes \<Rightarrow> hash" where
  "test_keccak b = (if b = [] then 1 else 2)"

definition test_interpreter :: "int \<Rightarrow> statedb \<Rightarrow> Contract \<Rightarrow> bytes \<Rightarrow> bool \<Rightarrow> run_result" where
  "test_interpreter d db c input readOnly =
     (case c_Code c of
        [] \<Rightarrow> \<lparr>rr_ret = [], rr_err = None, rr_gas = c_Gas c, rr_effects = []\<rparr>
      | opc # rest \<Rightarrow>
          if c_Gas c < 100
            then \<lparr>rr_ret = [], rr_err = Some ErrOutOfGas, rr_gas = c_Gas c, rr_effects = []\<rparr>
          else if opc \<noteq> 0xF3 \<and> opc \<noteq> 0xFD
            then \<lparr>rr_ret = [], rr_err = Some (ErrOther 0), rr_gas = c_Gas c - 100, rr_effects = []\<rparr>
          else if readOnly
            then \<lparr>rr_ret = [], rr_err = Some ErrWriteProtection, rr_gas = c_Gas c - 100,
                  rr_effects = []\<rparr>
          else \<lparr>rr_ret = rest,
                rr_err = (if opc = 0xFD then Some ErrExecutionReverted else None),
                rr_gas = c_Gas c - 100,
                rr_effects = [Mut (MSetState (c_self c) 0 1),
                              Frame [Mut (MAddLog (c_self c) [] [])] False]\<rparr>)"

definition test_zvm :: ZVM where
  "test_zvm =
     \<lparr>Context = \<lparr>CanTransfer = core_CanTransfer, Transfer = core_Transfer, GetHash = (\<lambda>n. 0),
         Coinbase = 0, GasLimit = 30000000, BlockNumber = 1, Time = 0, BaseFee = None,
         Random = None\<rparr>,
      Origin = 1, GasPrice = 1, depth = 0, interpreter = test_interpreter,
      precompile = (\<lambda>a. if a = 4
         then Some (\<lambda>input gas. if gas < 15 then ([], 0, Some ErrOutOfGas)
                                  else (input, gas - 15, None))
         else None),
      Keccak256Hash = test_keccak, CallCreateDepth = 1024, MaxCodeSize = 24576,
      CreateDataGas = 200\<rparr>"

text \<open>A state with a funded account at address 1 and a contract at address 2 whose
  code reverts.\<close>

definition test_db :: statedb where
  "test_db =
     \<lparr>db_world = \<lparr>accounts = [1 \<mapsto> empty_account\<lparr>acc_balance := 1000\<rparr>,
                                2 \<mapsto> empty_account\<lparr>acc_code := [0xFD, 0x2A]\<rparr>],
                   logs = [], accessList = {}\<rparr>,
      journal = [], validRevisions = [], nextRevisionId = 0, thash = 0, txIndex = 0\<rparr>"

text \<open>Three init codes: one returns 24577 bytes, one returns one byte, one reverts.\<close>

definition big_init :: codeAndHash where
  "big_init = \<lparr>cah_code = 0xF3 # replicate 24577 0, cah_hash = 0\<rparr>"

definition small_init :: codeAndHash where
  "small_init = \<lparr>cah_code = [0xF3, 0x00], cah_hash = 0\<rparr>"


text \<open>
  A state transition for concrete runs: every transaction is sent by address 1, the nonce
  must match, and an execution costs 21000 gas, increments the nonce and pays for the
  gas. Two transactions of 21000 gas each meet a block gas limit of 30000.
\<close>

definition test_transition :: transition where
  "test_transition =
     \<lparr>TransactionToMessage =
        (\<lambda>tx baseFee.
           case inner tx of
             Some (DynamicFeeTxData d) \<Rightarrow>
               Inr \<lparr>msg_From = 1, msg_To = dt_To d, msg_Nonce = dt_Nonce d,
                    msg_Value = dt_Value d, msg_GasLimit = dt_Gas d,
                    msg_GasPrice = dt_GasFeeCap d, msg_GasFeeCap = dt_GasFeeCap d,
                    msg_GasTipCap = dt_GasTipCap d, msg_Data = dt_Data d\<rparr>
           | _ \<Rightarrow> Inl (ErrSender 0)),
      preCheck = (\<lambda>db msg. if GetNonce db (msg_From msg) \<noteq> msg_Nonce msg then Some ErrNonce else None),
      execute =
        (\<lambda>zvm msg db.
           if msg_GasLimit msg < 21000
           then \<lparr>xo_invalid = Some ErrIntrinsicGas, xo_vmerr = None, xo_ret = [],
                 xo_gasRemaining = 0, xo_effects = [], xo_hashQueries = []\<rparr>
           else \<lparr>xo_invalid = None, xo_vmerr = None, xo_ret = [],
                 xo_gasRemaining = msg_GasLimit msg - 21000,
                 xo_effects = [Mut (MSetNonce (msg_From msg) (msg_Nonce msg + 1)),
                               Mut (MSubBalance (msg_From msg) (21000 * msg_GasPrice msg))],
                 xo_hashQueries = []\<rparr>),
      machine = test_zvm,
      tx_codec = toy_codec\<rparr>"

definition test_hashing :: hashing where
  "test_hashing =
     \<lparr>CreateAddress = (\<lambda>a n. 7), CreateBloom = (\<lambda>rs. []), DeriveSha_txs = (\<lambda>txs. 0),
      DeriveSha_receipts = (\<lambda>rs. 0), DeriveSha_withdrawals = (\<lambda>ws. 0),
      rlpHash_logs = (\<lambda>ls. 0), state_root = (\<lambda>accs. Inr 0), getTracerFn = (\<lambda>i h. None)\<rparr>"

definition test_pre :: Prestate where
  "test_pre =
     \<lparr>pre_Env = \<lparr>env_Coinbase = 9, env_Random = None, env_GasLimit = 30000, env_Number = 1,
                  env_Timestamp = 0, env_BlockHashes = None, env_Withdrawals = None,
                  env_BaseFee = None\<rparr>,
      pre_Pre = [(1, \<lparr>ga_Code = [], ga_Storage = [], ga_Balance = 1000000, ga_Nonce = 0\<rparr>)]\<rparr>"

definition test_txs :: "Transaction list" where
  "test_txs = [NewTx toy_codec 0 (DynamicFeeTxData toy_tx),
               NewTx toy_codec 0 (DynamicFeeTxData (toy_tx\<lparr>dt_Nonce := 1\<rparr>))]"

definition test_processor :: StateProcessor where
  "test_processor =
     \<lparr>sp_transition = test_transition, sp_hashing = test_hashing,
      NewZVMBlockContext = (\<lambda>h. Context test_zvm),
      engine_Finalize = (\<lambda>h db txs ws. [])\<rparr>"

definition test_block :: Block where
  "test_block =
     \<lparr>b_header = \<lparr>h_Coinbase = 9, h_Number = 1, h_GasLimit = 30000, h_Time = 0,
                   h_BaseFee = None\<rparr>,
      b_transactions = test_txs, b_withdrawals = [], b_hash = 0\<rparr>"



section \<open>Properties of the state database and of the call frames\<close>

lemma extends_refl: "extends s s"
  by (simp add: extends_def)

lemma extends_trans:
  assumes "extends s t" and "extends t u"
  shows "extends s u"
proof -
  from assms(1) obtain es vs where 1: "journal t = journal s @ es"
    "foldr undo es (db_world t) = db_world s" "validRevisions t = validRevisions s @ vs"
    "nextRevisionId s \<le> nextRevisionId t" "thash t = thash s" "txIndex t = txIndex s"
    unfolding extends_def by blast
  from assms(2) obtain es' vs' where 2: "journal u = journal t @ es'"
    "foldr undo es' (db_world u) = db_world t" "validRevisions u = validRevisions t @ vs'"
    "nextRevisionId t \<le> nextRevisionId u" "thash u = thash t" "txIndex u = txIndex t"
    unfolding extends_def by blast
  have "journal u = journal s @ (es @ es')" using 1 2 by simp
  moreover have "foldr undo (es @ es') (db_world u) = db_world s" using 1 2 by simp
  moreover have "validRevisions u = validRevisions s @ (vs @ vs')" using 1 2 by simp
  ultimately show ?thesis unfolding extends_def using 1 2 by (metis le_trans)
qed

lemma set_account_undo:
  "set_account a x w = (w', es) \<Longrightarrow> foldr undo es w' = w"
  by (auto simp: set_account_def)

lemma mutate_undo: "mutate th m w = (w', es) \<Longrightarrow> foldr undo es w' = w"
  by (cases m) (auto simp: set_account_undo split: option.splits if_splits)

lemma extends_apply_mutation: "extends s (apply_mutation m s)"
proof -
  obtain w es where m: "mutate (thash s) m (db_world s) = (w, es)" by fastforce
  then have "foldr undo es w = db_world s" by (rule mutate_undo)
  with m show ?thesis by (simp add: apply_mutation_def extends_def)
qed

lemma wf_apply_mutation: "wf_statedb s \<Longrightarrow> wf_statedb (apply_mutation m s)"
  by (simp add: apply_mutation_def wf_statedb_def split: prod.splits)

lemma extends_apply_mutations: "extends s (apply_mutations ms s)"
  by (induction ms arbitrary: s) (auto intro: extends_refl extends_trans extends_apply_mutation)

lemma wf_apply_mutations: "wf_statedb s \<Longrightarrow> wf_statedb (apply_mutations ms s)"
  by (induction ms arbitrary: s) (auto intro: wf_apply_mutation)

lemma extends_Snapshot: "extends s (snd (Snapshot s))"
  by (simp add: Snapshot_def extends_def)

lemma wf_Snapshot: "wf_statedb s \<Longrightarrow> wf_statedb (snd (Snapshot s))"
  by (auto simp: Snapshot_def wf_statedb_def less_Suc_eq sorted_wrt_append)

lemma search_revision_own:
  assumes "\<forall>r \<in> set vr. fst r < revid"
  shows "search_revision revid (vr @ (revid, n) # vs) = length vr"
proof -
  have "takeWhile (\<lambda>r. fst r < revid) (vr @ (revid, n) # vs) = vr"
    using assms by (simp add: takeWhile_append2)
  then show ?thesis by (simp add: search_revision_def)
qed

lemma RevertToSnapshot_own:
  assumes wf: "wf_statedb s" and ext: "extends (snd (Snapshot s)) t"
  shows "RevertToSnapshot (fst (Snapshot s)) t = Return (s\<lparr>nextRevisionId := nextRevisionId t\<rparr>)"
proof -
  let ?id = "nextRevisionId s"
  let ?n = "length (journal s)"
  from ext obtain es vs where t: "journal t = journal s @ es"
    "foldr undo es (db_world t) = db_world s"
    "validRevisions t = validRevisions s @ (?id, ?n) # vs"
    "thash t = thash s" "txIndex t = txIndex s"
    unfolding extends_def by (auto simp: Snapshot_def)
  have idx: "search_revision ?id (validRevisions t) = length (validRevisions s)"
    using wf unfolding t(3) by (intro search_revision_own) (simp add: wf_statedb_def)
  have nth: "validRevisions t ! length (validRevisions s) = (?id, ?n)"
    by (simp add: t(3))
  have len: "length (validRevisions s) \<noteq> length (validRevisions t)"
    by (simp add: t(3))
  have rev: "journal_revert ?n t = t\<lparr>db_world := db_world s, journal := journal s\<rparr>"
    by (simp add: journal_revert_def t(1) t(2))
  have "RevertToSnapshot ?id t =
      Return (t\<lparr>db_world := db_world s, journal := journal s, validRevisions := validRevisions s\<rparr>)"
    unfolding RevertToSnapshot_def Let_def idx nth using len by (simp add: rev t(3))
  moreover have "t\<lparr>db_world := db_world s, journal := journal s, validRevisions := validRevisions s\<rparr>
      = s\<lparr>nextRevisionId := nextRevisionId t\<rparr>"
    using t(4,5) by (intro statedb.equality) simp_all
  ultimately show ?thesis by (simp add: Snapshot_def)
qed

lemma wf_bump: "wf_statedb s \<Longrightarrow> nextRevisionId s \<le> n \<Longrightarrow> wf_statedb (s\<lparr>nextRevisionId := n\<rparr>)"
  by (auto simp: wf_statedb_def)

lemma extends_bump: "nextRevisionId s \<le> n \<Longrightarrow> extends s (s\<lparr>nextRevisionId := n\<rparr>)"
  by (simp add: extends_def)

lemma extends_next: "extends s t \<Longrightarrow> nextRevisionId s \<le> nextRevisionId t"
  by (auto simp: extends_def)

lemma apply_effects_extends:
  "wf_statedb s \<Longrightarrow> \<exists>t. apply_effect e s = Return t \<and> wf_statedb t \<and> extends s t"
  "wf_statedb s \<Longrightarrow> \<exists>t. apply_effects es s = Return t \<and> wf_statedb t \<and> extends s t"
proof (induction e s and es s rule: apply_effect_apply_effects.induct)
  case (1 m s)
  then show ?case by (simp add: wf_apply_mutation extends_apply_mutation)
next
  case (2 es failed s)
  obtain snapshot s1 where sn: "Snapshot s = (snapshot, s1)" by fastforce
  then have s1: "s1 = snd (Snapshot s)" "snapshot = fst (Snapshot s)" by simp_all
  have wf1: "wf_statedb s1" using "2.prems" s1 by (simp add: wf_Snapshot)
  from "2.IH" [OF sn [symmetric] wf1] obtain s2 where
    s2: "apply_effects es s1 = Return s2" "wf_statedb s2" "extends s1 s2" by blast
  show ?case
  proof (cases failed)
    case True
    have r: "RevertToSnapshot snapshot s2 = Return (s\<lparr>nextRevisionId := nextRevisionId s2\<rparr>)"
      using RevertToSnapshot_own [OF "2.prems"] s2(3) s1 by simp
    have le: "nextRevisionId s \<le> nextRevisionId s2"
      using extends_next [OF extends_trans [OF extends_Snapshot s2(3) [unfolded s1]]] .
    show ?thesis using True sn s2 r "2.prems" le
      by (simp add: wf_bump extends_bump)
  next
    case False
    have "extends s s2" using extends_trans [OF extends_Snapshot s2(3) [unfolded s1]] .
    then show ?thesis using False sn s2 by simp
  qed
next
  case (3 s)
  then show ?case by (simp add: extends_refl)
next
  case (4 e es s)
  from "4.IH"(1) [OF "4.prems"] obtain s1 where
    s1: "apply_effect e s = Return s1" "wf_statedb s1" "extends s s1" by blast
  from "4.IH"(2) [OF s1(1) s1(2)] obtain t where
    t: "apply_effects es s1 = Return t" "wf_statedb t" "extends s1 t" by blast
  show ?case using s1 t by (auto intro: extends_trans)
qed

lemma Run_extends:
  assumes "wf_statedb s"
  shows "\<exists>t. Run zvm s c i ro =
            Return ((rr_ret (interpreter zvm (depth zvm) s c i ro),
                     rr_gas (interpreter zvm (depth zvm) s c i ro),
                     rr_err (interpreter zvm (depth zvm) s c i ro)), t) \<and>
          apply_effects (rr_effects (interpreter zvm (depth zvm) s c i ro)) s = Return t \<and>
          wf_statedb t \<and> extends s t"
  using apply_effects_extends(2) [OF assms, of "rr_effects (interpreter zvm (depth zvm) s c i ro)"]
  by (auto simp: Run_def Let_def)

lemma revert_on_error_own:
  assumes "wf_statedb s" and "extends (snd (Snapshot s)) t"
  shows "revert_on_error (fst (Snapshot s)) (ret, gas, err) t =
     (if err \<noteq> None
      then Return ((ret, (if err \<noteq> Some ErrExecutionReverted then 0 else gas), err),
                   s\<lparr>nextRevisionId := nextRevisionId t\<rparr>)
      else Return ((ret, gas, err), t))"
  using RevertToSnapshot_own [OF assms] by (simp add: revert_on_error_def)

lemma same_state_bump: "same_state s (s\<lparr>nextRevisionId := n\<rparr>)"
  by (simp add: same_state_def)

lemma same_state_refl: "same_state s s"
  by (simp add: same_state_def)

lemma revert_on_error_frame:
  assumes wf: "wf_statedb s" and ext: "extends (snd (Snapshot s)) t" and wft: "wf_statedb t"
  shows "\<exists>g u. revert_on_error (fst (Snapshot s)) (ret, gas, err) t = Return ((ret, g, err), u) \<and>
           wf_statedb u \<and> extends s u \<and> (err \<noteq> None \<longrightarrow> same_state s u) \<and> (err = None \<longrightarrow> u = t \<and> g = gas)"
proof -
  have le: "nextRevisionId s \<le> nextRevisionId t"
    using extends_next [OF extends_trans [OF extends_Snapshot ext]] .
  have "extends s t" using extends_trans [OF extends_Snapshot ext] .
  then show ?thesis
    unfolding revert_on_error_own [OF wf ext]
    using wf wft le by (auto simp: wf_bump extends_bump same_state_bump)
qed


lemma DelegateCall_frame:
  assumes wf: "wf_statedb s"
    and ret: "DelegateCall zvm s caller addr input gas = Return ((ret, g, err), u)"
  shows "wf_statedb u \<and> extends s u \<and> (err \<noteq> None \<longrightarrow> same_state s u)"
proof -
  obtain snapshot s1 where sn: "Snapshot s = (snapshot, s1)" by fastforce
  then have s1: "s1 = snd (Snapshot s)" "snapshot = fst (Snapshot s)" by simp_all
  have wf1: "wf_statedb s1" and e1: "extends s s1"
    using wf s1 by (simp_all add: wf_Snapshot extends_Snapshot)
  note fr = revert_on_error_frame [OF wf _ _, folded s1]
  show ?thesis
  proof (cases "depth zvm > CallCreateDepth zvm")
    case True
    then show ?thesis using wf ret by (auto simp: DelegateCall_def extends_refl same_state_refl)
  next
    case False
    note pre = this
    show ?thesis
    proof (cases "precompile zvm addr")
      case (Some p)
      obtain r1 g1 e1' where p: "p input gas = (r1, g1, e1')" by (cases "p input gas") auto
      from fr [OF extends_refl wf1, of r1 g1 e1'] show ?thesis
        using pre sn Some p ret by (auto simp: DelegateCall_def Let_def)
    next
      case None
      show ?thesis
      proof (cases "AsDelegate (NewContract caller (ref_Address caller) None gas)")
        case Panic
        then show ?thesis using pre sn None ret by (simp add: DelegateCall_def)
      next
        case (Return c0)
        define c where "c = SetCallCode addr (GetCodeHash (Keccak256Hash zvm) s1 addr)
             (GetCode s1 addr) c0"
        from Run_extends [OF wf1, of zvm c input False] obtain s2 r where
          run: "Run zvm s1 c input False = Return (r, s2)" "wf_statedb s2" "extends s1 s2"
          by blast
        obtain r1 g1 e1' where r: "r = (r1, g1, e1')" by (cases r) auto
        from fr [OF run(3) run(2), of r1 g1 e1'] show ?thesis
          using pre sn None Return run(1) r ret
          by (auto simp: DelegateCall_def Let_def c_def)
      qed
    qed
  qed
qed


lemma create_finish_frame:
  assumes wf: "wf_statedb s" and ext: "extends (snd (Snapshot s)) t" and wft: "wf_statedb t"
  shows "\<exists>g err' u. create_finish zvm (fst (Snapshot s)) addr c ret err t = Return ((ret, addr, g, err'), u) \<and>
           wf_statedb u \<and> extends s u \<and>
           (err' \<noteq> None \<and> err' \<noteq> Some ErrCodeStoreOutOfGas \<longrightarrow> same_state s u) \<and>
           (err \<noteq> None \<longrightarrow> err' = err) \<and>
           (err = None \<and> MaxCodeSize zvm < length ret \<longrightarrow> err' = Some ErrMaxCodeSizeExceeded \<and> g = 0)"
proof -
  have le: "nextRevisionId s \<le> nextRevisionId t"
    using extends_next [OF extends_trans [OF extends_Snapshot ext]] .
  have est: "extends s t" using extends_trans [OF extends_Snapshot ext] .
  have rv: "RevertToSnapshot (fst (Snapshot s)) t = Return (s\<lparr>nextRevisionId := nextRevisionId t\<rparr>)"
    using RevertToSnapshot_own [OF wf ext] .
  have est': "extends s (apply_mutation (MSetCode addr ret) t)"
    using extends_trans [OF est extends_apply_mutation] .
  show ?thesis
    unfolding create_finish_def Let_def
    using rv wf wft le est est'
    by (auto simp: wf_bump extends_bump same_state_bump UseGas_def wf_apply_mutation
          split: prod.splits if_splits)
qed

lemma create_entry_checks:
  "depth zvm > CallCreateDepth zvm \<Longrightarrow>
     create zvm s caller ch gas v addr = Return (([], 0, gas, Some ErrDepth), s)"
  "\<not> depth zvm > CallCreateDepth zvm \<Longrightarrow> \<not> CanTransfer (Context zvm) s (ref_Address caller) v \<Longrightarrow>
     create zvm s caller ch gas v addr = Return (([], 0, gas, Some ErrInsufficientBalance), s)"
  "\<not> depth zvm > CallCreateDepth zvm \<Longrightarrow> CanTransfer (Context zvm) s (ref_Address caller) v \<Longrightarrow>
     GetNonce s (ref_Address caller) + 1 < GetNonce s (ref_Address caller) \<Longrightarrow>
     create zvm s caller ch gas v addr = Return (([], 0, gas, Some ErrNonceUintOverflow), s)"
  by (simp_all add: create_def)


lemma wf_create_entry: "wf_statedb s \<Longrightarrow> wf_statedb (create_entry s c a)"
  by (simp add: create_entry_def wf_apply_mutation)

lemma extends_create_entry: "extends s (create_entry s c a)"
  unfolding create_entry_def by (blast intro: extends_trans extends_apply_mutation)

lemma create_run:
  assumes wf: "wf_statedb s" and ok: "entry_ok zvm s caller v"
    and nc: "\<not> collision zvm (create_entry s (ref_Address caller) addr) addr"
    and r: "r = create_init_run zvm s caller ch gas v addr"
  shows "\<exists>g err' u.
      create zvm s caller ch gas v addr = Return ((rr_ret r, addr, g, err'), u) \<and>
      wf_statedb u \<and> extends s u \<and>
      (err' \<noteq> None \<and> err' \<noteq> Some ErrCodeStoreOutOfGas \<longrightarrow>
         same_state (create_entry s (ref_Address caller) addr) u) \<and>
      (rr_err r \<noteq> None \<longrightarrow> err' = rr_err r) \<and>
      (rr_err r = None \<and> MaxCodeSize zvm < length (rr_ret r) \<longrightarrow>
         err' = Some ErrMaxCodeSizeExceeded \<and> g = 0)"
proof -
  define s2 where "s2 = create_entry s (ref_Address caller) addr"
  have wf2: "wf_statedb s2" and e2: "extends s s2"
    using wf by (simp_all add: s2_def wf_create_entry extends_create_entry)
  obtain snapshot s3 where sn: "Snapshot s2 = (snapshot, s3)" by fastforce
  then have s3: "s3 = snd (Snapshot s2)" "snapshot = fst (Snapshot s2)" by simp_all
  have wf3: "wf_statedb s3" using wf2 s3 by (simp add: wf_Snapshot)
  define s5 where "s5 = apply_mutation (MSetNonce addr 1) (apply_mutation (MCreateAccount addr) s3)"
  define s6 where "s6 = apply_mutations (Transfer (Context zvm) s5 (ref_Address caller) addr v) s5"
  define c where "c = SetCodeOptionalHash addr ch (NewContract caller addr (Some v) gas)"
  have wf6: "wf_statedb s6" and e6: "extends s3 s6"
    unfolding s6_def s5_def using wf3
    by (blast intro: wf_apply_mutation wf_apply_mutations extends_trans extends_apply_mutation
         extends_apply_mutations)+
  have s6: "s6 = create_init_state zvm s caller v addr"
    by (simp add: create_init_state_def Let_def s6_def s5_def s3(1) s2_def)
  have r_def: "r = interpreter zvm (depth zvm) s6 c [] False"
    by (simp add: r create_init_run_def s6 c_def)
  from Run_extends [OF wf6, of zvm c "[]" False] obtain s7 where
    run: "Run zvm s6 c [] False = Return ((rr_ret r, rr_gas r, rr_err r), s7)"
      "wf_statedb s7" "extends s6 s7"
    unfolding r_def by blast
  have e7: "extends (snd (Snapshot s2)) s7" using extends_trans [OF e6 run(3)] s3 by simp
  from create_finish_frame [OF wf2 e7 run(2), of zvm addr "c\<lparr>c_Gas := rr_gas r\<rparr>" "rr_ret r" "rr_err r"]
  obtain g err' u where fin:
    "create_finish zvm snapshot addr (c\<lparr>c_Gas := rr_gas r\<rparr>) (rr_ret r) (rr_err r) s7 =
        Return ((rr_ret r, addr, g, err'), u)"
    "wf_statedb u" "extends s2 u"
    "err' \<noteq> None \<and> err' \<noteq> Some ErrCodeStoreOutOfGas \<longrightarrow> same_state s2 u"
    "rr_err r \<noteq> None \<longrightarrow> err' = rr_err r"
    "rr_err r = None \<and> MaxCodeSize zvm < length (rr_ret r) \<longrightarrow> err' = Some ErrMaxCodeSizeExceeded \<and> g = 0"
    unfolding s3(2) by blast
  have cr: "create zvm s caller ch gas v addr = Return ((rr_ret r, addr, g, err'), u)"
    using ok nc [unfolded collision_def, folded s2_def] sn run(1) fin(1)
    by (auto simp add: create_def entry_ok_def Let_def
        s2_def [unfolded create_entry_def, symmetric] s5_def [symmetric] s6_def [symmetric] c_def [symmetric])
  have "extends s u" using extends_trans [OF e2 fin(3)] .
  then show ?thesis using cr fin(2,4,5,6) unfolding s2_def by blast
qed

lemma wf_test_db: "wf_statedb test_db"
  by (simp add: wf_statedb_def test_db_def)













lemma world_create_entry:
  "accounts (db_world (create_entry s c a)) =
     (accounts (db_world s))(c \<mapsto> (getOrNew (db_world s) c)\<lparr>acc_nonce := GetNonce s c + 1\<rparr>)"
  "logs (db_world (create_entry s c a)) = logs (db_world s)"
  "accessList (db_world (create_entry s c a)) = insert a (accessList (db_world s))"
  by (auto simp: create_entry_def apply_mutation_def set_account_def GetNonce_def)


lemma entry_ok_test: "entry_ok test_zvm test_db (AccountRef 1) 0"
  by (simp add: entry_ok_def test_zvm_def test_db_def core_CanTransfer_def GetBalance_def
      GetNonce_def getOrNew_def empty_account_def)

lemma no_collision_test: "\<not> collision test_zvm (create_entry test_db 1 7) 7"
  by (simp add: collision_def create_entry_def test_db_def apply_mutation_def set_account_def
      GetNonce_def GetCodeHash_def getOrNew_def empty_account_def)

lemma test_keccak_ok:
  "\<forall>c. Keccak256Hash test_zvm c = 0 \<or> Keccak256Hash test_zvm c = Keccak256Hash test_zvm [] \<longrightarrow> c = []"
  by (simp add: test_zvm_def test_keccak_def)

lemma big_init_run:
  "create_init_run test_zvm test_db (AccountRef 1) big_init 5000 0 7 =
     \<lparr>rr_ret = replicate 24577 0, rr_err = None, rr_gas = 4900,
      rr_effects = [Mut (MSetState 7 0 1), Frame [Mut (MAddLog 7 [] [])] False]\<rparr>"
  by (simp add: create_init_run_def test_zvm_def test_interpreter_def SetCodeOptionalHash_def
      NewContract_def big_init_def)

lemma create_unfold:
  assumes ok: "entry_ok zvm s caller v"
    and nc: "\<not> collision zvm (create_entry s (ref_Address caller) addr) addr"
  shows "create zvm s caller ch gas v addr =
     (case apply_effects (rr_effects (create_init_run zvm s caller ch gas v addr))
             (create_init_state zvm s caller v addr) of
        Panic \<Rightarrow> Panic
      | Return db7 \<Rightarrow>
          create_finish zvm (nextRevisionId (create_entry s (ref_Address caller) addr)) addr
            ((SetCodeOptionalHash addr ch (NewContract caller addr (Some v) gas))
               \<lparr>c_Gas := rr_gas (create_init_run zvm s caller ch gas v addr)\<rparr>)
            (rr_ret (create_init_run zvm s caller ch gas v addr))
            (rr_err (create_init_run zvm s caller ch gas v addr)) db7)"
  using ok nc
  by (auto simp: create_def entry_ok_def collision_def create_entry_def create_init_run_def
      create_init_state_def Run_def Let_def Snapshot_def split: go.splits)

lemma no_collision_test': "\<not> collision test_zvm (create_entry test_db (ref_Address (AccountRef 1)) 7) 7"
  using no_collision_test by simp

lemma create_big_init_eval:
  "create test_zvm test_db (AccountRef 1) big_init 5000 0 7 =
     Return ((replicate 24577 0, 7, 0, Some ErrMaxCodeSizeExceeded),
             (create_entry test_db 1 7)\<lparr>nextRevisionId := 2\<rparr>)"
  unfolding create_unfold [OF entry_ok_test no_collision_test'] big_init_run
  by (simp add: create_finish_def test_zvm_def test_db_def
      getOrNew_def empty_account_def apply_mutation_def set_account_def Snapshot_def
      UseGas_def create_init_state_def core_Transfer_def
      RevertToSnapshot_def search_revision_def journal_revert_def create_entry_def Let_def)

lemma small_init_run:
  "create_init_run test_zvm test_db (AccountRef 1) small_init 250 0 7 =
     \<lparr>rr_ret = [0x00], rr_err = None, rr_gas = 150,
      rr_effects = [Mut (MSetState 7 0 1), Frame [Mut (MAddLog 7 [] [])] False]\<rparr>"
  by (simp add: create_init_run_def test_zvm_def test_interpreter_def SetCodeOptionalHash_def
      NewContract_def small_init_def)




section \<open>Properties of the virtual machine\<close>

text \<open>
  Claim C5. The call depth is bounded by \<^verbatim>\<open>params.CallCreateDepth\<close>: at a depth above it,
  \<^verbatim>\<open>Call\<close>, \<^verbatim>\<open>DelegateCall\<close>, \<^verbatim>\<open>StaticCall\<close> and \<^verbatim>\<open>create\<close> return at once with
  \<^verbatim>\<open>ErrDepth\<close>, the gas they were given and the state database as it was. The error is
  a returned value, so the calling frame goes on.
\<close>

theorem depth_limit:
  assumes "depth zvm > CallCreateDepth zvm"
  shows "Call zvm db caller addr input gas v = Return (([], gas, Some ErrDepth), db) \<and>
         DelegateCall zvm db caller addr input gas = Return (([], gas, Some ErrDepth), db) \<and>
         StaticCall zvm db caller addr input gas = Return (([], gas, Some ErrDepth), db) \<and>
         create zvm db caller ch gas v addr' = Return (([], 0, gas, Some ErrDepth), db)"
  using assms by (simp add: Call_def DelegateCall_def StaticCall_def create_def)

theorem depth_limit_witness:
  "Call (test_zvm\<lparr>depth := 1025\<rparr>) test_db (AccountRef 1) 2 [] 5000 0 =
     Return (([], 5000, Some ErrDepth), test_db) \<and>
   DelegateCall (test_zvm\<lparr>depth := 1025\<rparr>) test_db (AccountRef 1) 2 [] 5000 =
     Return (([], 5000, Some ErrDepth), test_db) \<and>
   StaticCall (test_zvm\<lparr>depth := 1025\<rparr>) test_db (AccountRef 1) 2 [] 5000 =
     Return (([], 5000, Some ErrDepth), test_db) \<and>
   create (test_zvm\<lparr>depth := 1025\<rparr>) test_db (AccountRef 1) \<lparr>cah_code = [0xF3], cah_hash = 0\<rparr> 5000 0 7 =
     Return (([], 0, 5000, Some ErrDepth), test_db)"
  using depth_limit [of "test_zvm\<lparr>depth := 1025\<rparr>"]
  by (simp add: test_zvm_def)

text \<open>
  Claim C10, as amended. At a depth not above \<^verbatim>\<open>params.CallCreateDepth\<close>, a \<^verbatim>\<open>Call\<close>
  with zero value to an address that has no account and is no precompile returns a nil
  result, a nil error and all the gas; it creates no account, and the state is the one
  before the call with the snapshot of \<^verbatim>\<open>Call\<close> recorded: the same world, the same
  journal.
\<close>

theorem call_nonexistent_account:
  assumes "depth zvm \<le> CallCreateDepth zvm" and "\<not> Exist db addr" and "precompile zvm addr = None"
  shows "Call zvm db caller addr input gas 0 = Return (([], gas, None), snd (Snapshot db)) \<and>
         db_world (snd (Snapshot db)) = db_world db \<and>
         journal (snd (Snapshot db)) = journal db \<and>
         \<not> Exist (snd (Snapshot db)) addr"
  using assms by (simp add: Call_def Snapshot_def Exist_def)

text \<open>
  Claim C10 as stated fails at depth 1025: the call with zero value to the missing
  address 9 returns \<^verbatim>\<open>ErrDepth\<close>, not a nil error.
\<close>

theorem call_nonexistent_account_too_deep:
  "\<not> Exist test_db 9 \<and> precompile (test_zvm\<lparr>depth := 1025\<rparr>) 9 = None \<and>
   Call (test_zvm\<lparr>depth := 1025\<rparr>) test_db (AccountRef 1) 9 [] 5000 0 =
     Return (([], 5000, Some ErrDepth), test_db)"
  by (simp add: Call_def test_zvm_def test_db_def Exist_def)

theorem call_nonexistent_account_witness:
  "Call test_zvm test_db (AccountRef 1) 9 [] 5000 0 =
     Return (([], 5000, None), test_db\<lparr>validRevisions := [(0, 0)], nextRevisionId := 1\<rparr>) \<and>
   accounts (db_world test_db) 9 = None"
proof -
  have 1: "depth test_zvm \<le> CallCreateDepth test_zvm" by (simp add: test_zvm_def)
  have 2: "\<not> Exist test_db 9" by (simp add: test_db_def Exist_def)
  have 3: "precompile test_zvm 9 = None" by (simp add: test_zvm_def)
  show ?thesis
    using call_nonexistent_account [OF 1 2 3, of "AccountRef 1" "[]" 5000]
    by (simp add: Snapshot_def test_db_def)
qed

text \<open>
  Claim C2 fails on the code. The init code returns one byte and leaves 150 gas; storing
  the byte costs 200. \<^verbatim>\<open>create\<close> returns \<^verbatim>\<open>ErrCodeStoreOutOfGas\<close>, yet it does not revert to
  its snapshot and keeps the 150 gas: the new account at address 7 with nonce 1, the
  storage slot the init code wrote and the log it emitted are still there, while at the
  snapshot address 7 had no account and there was no log.
\<close>

theorem create_code_store_out_of_gas_not_reverted:
  "\<exists>u. create test_zvm test_db (AccountRef 1) small_init 250 0 7 =
          Return (([0x00], 7, 150, Some ErrCodeStoreOutOfGas), u) \<and>
        accounts (db_world u) 7 =
          Some (empty_account\<lparr>acc_nonce := 1, acc_storage := (\<lambda>k. 0)(0 := 1)\<rparr>) \<and>
        logs (db_world u) =
          [\<lparr>log_address = 7, log_topics = [], log_data = [], log_txhash = 0\<rparr>] \<and>
        accounts (db_world (create_entry test_db 1 7)) 7 = None \<and>
        logs (db_world (create_entry test_db 1 7)) = []"
  unfolding create_unfold [OF entry_ok_test no_collision_test'] small_init_run
  by (simp add: create_finish_def test_zvm_def test_db_def
      getOrNew_def empty_account_def apply_mutation_def set_account_def Snapshot_def
      UseGas_def create_init_state_def core_Transfer_def GetNonce_def
      create_entry_def Let_def)

theorem create_code_store_out_of_gas_not_reverted_witness:
  "\<exists>u. create test_zvm test_db (AccountRef 1) small_init 250 0 7 =
          Return (([0x00], 7, 150, Some ErrCodeStoreOutOfGas), u) \<and>
        Exist u 7 \<and> \<not> Exist (create_entry test_db 1 7) 7"
  using create_code_store_out_of_gas_not_reverted by (auto simp: Exist_def)






text \<open>
  Claim C7. When \<^verbatim>\<open>create\<close> has passed its entry checks and the collision test, and the
  init code returns, without error, data longer than \<^verbatim>\<open>params.MaxCodeSize\<close>, then \<^verbatim>\<open>create\<close>
  returns that data with \<^verbatim>\<open>ErrMaxCodeSizeExceeded\<close> and no gas left, the state is the one
  of its snapshot (the state before \<^verbatim>\<open>create\<close> with the caller's nonce incremented and
  the address on the access list), and the address holds no code. For the last part the
  hash function must tell empty code from other code.
\<close>

theorem create_max_code_size:
  assumes wf: "wf_statedb s" and ok: "entry_ok zvm s caller v"
    and nc: "\<not> collision zvm (create_entry s (ref_Address caller) addr) addr"
    and noerr: "rr_err (create_init_run zvm s caller ch gas v addr) = None"
    and big: "MaxCodeSize zvm < length (rr_ret (create_init_run zvm s caller ch gas v addr))"
    and hash: "\<forall>c. Keccak256Hash zvm c = 0 \<or> Keccak256Hash zvm c = Keccak256Hash zvm [] \<longrightarrow> c = []"
  shows "\<exists>u. create zvm s caller ch gas v addr =
               Return ((rr_ret (create_init_run zvm s caller ch gas v addr), addr, 0,
                        Some ErrMaxCodeSizeExceeded), u) \<and>
             same_state (create_entry s (ref_Address caller) addr) u \<and>
             GetCode u addr = []"
proof -
  from create_run [OF wf ok nc refl, of ch gas] noerr big obtain u where
    r: "create zvm s caller ch gas v addr =
          Return ((rr_ret (create_init_run zvm s caller ch gas v addr), addr, 0,
                   Some ErrMaxCodeSizeExceeded), u)"
       "same_state (create_entry s (ref_Address caller) addr) u"
    by fastforce
  let ?e = "create_entry s (ref_Address caller) addr"
  have "GetCode ?e addr = []"
  proof (cases "accounts (db_world ?e) addr")
    case None
    then show ?thesis by (simp add: GetCode_def getOrNew_def empty_account_def)
  next
    case (Some x)
    with nc hash have "acc_code x = []" by (auto simp: collision_def GetCodeHash_def)
    with Some show ?thesis by (simp add: GetCode_def getOrNew_def)
  qed
  then have "GetCode u addr = []" using r(2) by (simp add: GetCode_def same_state_def)
  with r show ?thesis by blast
qed

theorem create_max_code_size_witness:
  "create test_zvm test_db (AccountRef 1) big_init 5000 0 7 =
     Return ((replicate 24577 0, 7, 0, Some ErrMaxCodeSizeExceeded),
             (create_entry test_db 1 7)\<lparr>nextRevisionId := 2\<rparr>) \<and>
   GetCode ((create_entry test_db 1 7)\<lparr>nextRevisionId := 2\<rparr>) 7 = [] \<and>
   accounts (db_world (create_entry test_db 1 7)) =
     [1 \<mapsto> empty_account\<lparr>acc_balance := 1000, acc_nonce := 1\<rparr>,
      2 \<mapsto> empty_account\<lparr>acc_code := [0xFD, 0x2A]\<rparr>]"
proof -
  have ne: "rr_err (create_init_run test_zvm test_db (AccountRef 1) big_init 5000 0 7) = None"
    by (simp add: big_init_run)
  have bg: "MaxCodeSize test_zvm
     < length (rr_ret (create_init_run test_zvm test_db (AccountRef 1) big_init 5000 0 7))"
    unfolding big_init_run by (simp add: test_zvm_def)
  from create_max_code_size [OF wf_test_db entry_ok_test no_collision_test' ne bg test_keccak_ok]
  have "GetCode ((create_entry test_db 1 7)\<lparr>nextRevisionId := 2\<rparr>) 7 = []"
    unfolding create_big_init_eval by simp
  moreover have "accounts (db_world (create_entry test_db 1 7)) =
     [1 \<mapsto> empty_account\<lparr>acc_balance := 1000, acc_nonce := 1\<rparr>,
      2 \<mapsto> empty_account\<lparr>acc_code := [0xFD, 0x2A]\<rparr>]"
    by (auto simp: world_create_entry test_db_def getOrNew_def GetNonce_def empty_account_def)
  ultimately show ?thesis using create_big_init_eval by simp
qed

section \<open>Properties of block processing\<close>

lemma ApplyMessage_gas:
  assumes g: "gas_within_limit tr"
    and r: "ApplyMessage tr zvm msg gp db = Return (Inr res, gp', db', qs)"
  shows "unat gp' + unat (UsedGas res) = unat gp \<and> unat (UsedGas res) \<le> unat (msg_GasLimit msg)"
proof -
  let ?x = "execute tr zvm msg db"
  let ?gl = "msg_GasLimit msg"
  have rem: "xo_gasRemaining ?x \<le> ?gl" using g by (simp add: gas_within_limit_def)
  from r have le: "\<not> gp < ?gl" and gp': "gp' = gp - ?gl + xo_gasRemaining ?x"
    and u: "UsedGas res = ?gl - xo_gasRemaining ?x"
    by (auto simp: ApplyMessage_def SubGas_def AddGas_def Let_def
        split: option.splits if_splits go.splits sum.splits)
  have le': "unat ?gl \<le> unat gp" using le by (simp add: word_less_nat_alt)
  have rem': "unat (xo_gasRemaining ?x) \<le> unat ?gl" using rem by (simp add: word_le_nat_alt)
  have s1: "unat (gp - ?gl) = unat gp - unat ?gl" using le by (simp add: unat_sub not_less)
  have s2: "unat (?gl - xo_gasRemaining ?x) = unat ?gl - unat (xo_gasRemaining ?x)"
    using rem by (simp add: unat_sub)
  have lt: "unat gp < 2 ^ 64" using unsigned_less [of gp, where ?'a = nat] by simp
  have s3: "unat (gp - ?gl + xo_gasRemaining ?x) = unat (gp - ?gl) + unat (xo_gasRemaining ?x)"
    using s1 le' rem' lt by (intro unat_add_lem [THEN iffD1]) simp
  show ?thesis using gp' u s1 s2 s3 le' rem' by simp
qed

lemma ApplyMessage_reject_pool:
  "preCheck tr db msg = None \<Longrightarrow> gp < msg_GasLimit msg \<Longrightarrow>
     ApplyMessage tr zvm msg gp db = Return (Inl ErrGasLimitReached, gp, db, [])"
  by (simp add: ApplyMessage_def SubGas_def)

lemma Apply_included_gas:
  assumes "Apply_included tr hs tx h msg qrvm res gp db2 he st = Return (Inr st')"
  shows "as_gaspool st' = gp \<and> as_gasUsed st' = as_gasUsed st + UsedGas res \<and>
         (\<exists>r. as_receipts st' = as_receipts st @ [r] \<and> r_GasUsed r = UsedGas res) \<and>
         as_rejectedTxs st' = as_rejectedTxs st"
  using assms
  by (auto simp: Apply_included_def Let_def Apply_receipt_def new_receipt_def
      split: option.splits go.splits)

lemma gas_inv_step:
  assumes inv: "gas_inv limit gp used rs"
    and a: "unat gp' + unat u = unat gp"
  shows "gas_inv limit gp' (used + u) (rs @ [r\<lparr>r_GasUsed := u\<rparr>])"
proof -
  have lt: "unat limit < 2 ^ 64" using unsigned_less [of limit, where ?'a = nat] by simp
  have "unat used + unat u < 2 ^ 64" using inv a lt by (simp add: gas_inv_def)
  then have "unat (used + u) = unat used + unat u"
    by (intro unat_add_lem [THEN iffD1]) simp
  then show ?thesis using inv a by (simp add: gas_inv_def)
qed

lemma Apply_tx_gas:
  assumes g: "gas_within_limit tr"
    and inv: "gas_inv limit (as_gaspool st) (as_gasUsed st) (as_receipts st)"
    and r: "Apply_tx tr hs env ctx i tx st = Return (Inr st')"
  shows "gas_inv limit (as_gaspool st') (as_gasUsed st') (as_receipts st')"
proof (cases "tx_Hash (tx_codec tr) tx")
  case Panic
  then show ?thesis using r by (simp add: Apply_tx_def)
next
  case (Return h)
  note h = this
  show ?thesis
  proof (cases "TransactionToMessage tr tx (env_BaseFee env)")
    case (Inl err)
    then show ?thesis using r h inv by (auto simp: Apply_tx_def)
  next
    case (Inr msg)
    note msg = this
    show ?thesis
    proof (cases "getTracerFn hs (as_txIndex st) h")
      case (Some e)
      then show ?thesis using r h msg by (simp add: Apply_tx_def)
    next
      case None
      define db0 where "db0 = SetTxContext h (as_txIndex st) (as_statedb st)"
      define qrvm where "qrvm = NewZVM tr ctx (msg_From msg) (msg_GasPrice msg)"
      obtain snapshot db1 where sn: "Snapshot db0 = (snapshot, db1)" by fastforce
      show ?thesis
      proof (cases "ApplyMessage tr qrvm msg (as_gaspool st) db1")
        case Panic
        then show ?thesis using r h msg None sn
          by (simp add: Apply_tx_def Let_def db0_def qrvm_def)
      next
        case (Return res)
        obtain o1 gp db2 qs where res: "res = (o1, gp, db2, qs)" by (cases res) auto
        show ?thesis
        proof (cases o1)
          case (Inl err)
          then show ?thesis using r h msg None sn Return res inv
            by (auto simp: Apply_tx_def Let_def db0_def qrvm_def split: go.splits)
        next
          case (Inr mres)
          have ai: "Apply_included tr hs tx h msg qrvm mres gp db2
                      (fold (getHash_error env) qs (as_hashError st)) st = Return (Inr st')"
            using r h msg None sn Return res Inr
            by (simp add: Apply_tx_def Let_def db0_def qrvm_def)
          from Apply_included_gas [OF ai] obtain rc where st':
            "as_gaspool st' = gp" "as_gasUsed st' = as_gasUsed st + UsedGas mres"
            "as_receipts st' = as_receipts st @ [rc]" "r_GasUsed rc = UsedGas mres" by blast
          have am: "ApplyMessage tr qrvm msg (as_gaspool st) db1 = Return (Inr mres, gp, db2, qs)"
            using Return res Inr by simp
          from ApplyMessage_gas [OF g am]
          have "unat gp + unat (UsedGas mres) = unat (as_gaspool st)" by simp
          from gas_inv_step [OF inv this, of rc] show ?thesis
            using st' by (metis Receipt.surjective Receipt.update_convs(9))
        qed
      qed
    qed
  qed
qed

lemma Apply_loop_gas:
  assumes g: "gas_within_limit tr"
  shows "gas_inv limit (as_gaspool st) (as_gasUsed st) (as_receipts st) \<Longrightarrow>
         Apply_loop tr hs env ctx i txs st = Return (Inr st') \<Longrightarrow>
         gas_inv limit (as_gaspool st') (as_gasUsed st') (as_receipts st')"
proof (induction txs arbitrary: i st)
  case Nil
  then show ?case by simp
next
  case (Cons tx txs)
  from Cons.prems(2) obtain st1 where
    s1: "Apply_tx tr hs env ctx i tx st = Return (Inr st1)"
    and l: "Apply_loop tr hs env ctx (i + 1) txs st1 = Return (Inr st')"
    by (auto split: go.splits sum.splits)
  from Apply_tx_gas [OF g Cons.prems(1) s1] have "gas_inv limit (as_gaspool st1) (as_gasUsed st1) (as_receipts st1)" .
  from Cons.IH [OF this l] show ?case .
qed

lemma gas_inv_init: "gas_inv limit (AddGas limit 0) 0 []"
  by (simp add: gas_inv_def AddGas_def)

lemma Apply_gas:
  assumes g: "gas_within_limit tr"
    and r: "Apply tr hs pre txs reward = Return (Inr (db, res))"
  shows "sum_list (map (\<lambda>r. unat (r_GasUsed r)) (er_Receipts res)) = unat (er_GasUsed res) \<and>
         unat (er_GasUsed res) \<le> unat (env_GasLimit (pre_Env pre))"
proof -
  let ?st0 = "\<lparr>as_statedb = MakePreState (pre_Pre pre),
                 as_gaspool = AddGas (env_GasLimit (pre_Env pre)) 0,
                 as_rejectedTxs = [], as_includedTxs = [], as_gasUsed = 0,
                 as_receipts = [], as_txIndex = 0, as_hashError = None\<rparr>"
  from r obtain st where
    l: "Apply_loop tr hs (pre_Env pre) (Apply_vmContext (pre_Env pre)) 0 txs ?st0 = Return (Inr st)"
    and res: "er_Receipts res = as_receipts st" "er_GasUsed res = as_gasUsed st"
    by (auto simp: Apply_def Let_def split: go.splits sum.splits prod.splits)
  have "gas_inv (env_GasLimit (pre_Env pre)) (as_gaspool ?st0) (as_gasUsed ?st0) (as_receipts ?st0)"
    by (simp add: gas_inv_init)
  from Apply_loop_gas [OF g this l] show ?thesis using res by (simp add: gas_inv_def)
qed

lemma wf_SetTxContext: "wf_statedb s \<Longrightarrow> wf_statedb (SetTxContext h i s)"
  by (simp add: wf_statedb_def SetTxContext_def)

lemma Apply_tx_over_pool:
  assumes wf: "wf_statedb (as_statedb st)"
    and h: "tx_Hash (tx_codec tr) tx = Return h"
    and msg: "TransactionToMessage tr tx (env_BaseFee env) = Inr msg"
    and tracer: "getTracerFn hs (as_txIndex st) h = None"
    and pc: "preCheck tr (snd (Snapshot (SetTxContext h (as_txIndex st) (as_statedb st)))) msg = None"
    and over: "as_gaspool st < msg_GasLimit msg"
  shows "Apply_tx tr hs env ctx i tx st =
     Return (Inr (st\<lparr>as_statedb :=
                       (SetTxContext h (as_txIndex st) (as_statedb st))
                         \<lparr>nextRevisionId := nextRevisionId (as_statedb st) + 1\<rparr>,
                     as_rejectedTxs :=
                       as_rejectedTxs st @ [\<lparr>rej_Index = i, rej_Err = ErrGasLimitReached\<rparr>]\<rparr>))"
proof -
  let ?db0 = "SetTxContext h (as_txIndex st) (as_statedb st)"
  have wf0: "wf_statedb ?db0" using wf by (rule wf_SetTxContext)
  have am: "ApplyMessage tr (NewZVM tr ctx (msg_From msg) (msg_GasPrice msg)) msg (as_gaspool st)
              (snd (Snapshot ?db0)) = Return (Inl ErrGasLimitReached, as_gaspool st, snd (Snapshot ?db0), [])"
    using pc over by (rule ApplyMessage_reject_pool)
  have rv: "RevertToSnapshot (fst (Snapshot ?db0)) (snd (Snapshot ?db0)) =
      Return (?db0\<lparr>nextRevisionId := nextRevisionId (snd (Snapshot ?db0))\<rparr>)"
    using RevertToSnapshot_own [OF wf0 extends_refl] .
  have n: "nextRevisionId (snd (Snapshot ?db0)) = nextRevisionId (as_statedb st) + 1"
    by (simp add: Snapshot_def SetTxContext_def)
  obtain snapshot db1 where sn: "Snapshot ?db0 = (snapshot, db1)" by fastforce
  have st_eq: "st\<lparr>as_statedb := x, as_gaspool := as_gaspool st, as_rejectedTxs := y,
                  as_hashError := as_hashError st\<rparr> = st\<lparr>as_statedb := x, as_rejectedTxs := y\<rparr>"
    for x y by simp
  show ?thesis
    using h msg tracer am rv n sn
    by (simp add: Apply_tx_def Let_def st_eq)
qed

lemma applyTransaction_gas:
  assumes g: "gas_within_limit tr"
    and inv: "gas_inv limit gp used rs"
    and r: "applyTransaction tr hs msg gp db bn bh tx used zvm = Return (Inr (rc, gp', db', used'))"
  shows "gas_inv limit gp' used' (rs @ [rc])"
proof -
  let ?zvm1 = "zvm\<lparr>Origin := msg_From msg, GasPrice := msg_GasPrice msg\<rparr>"
  from r obtain res db1 qs where
    am: "ApplyMessage tr ?zvm1 msg gp db = Return (Inr res, gp', db1, qs)"
    and u: "used' = used + UsedGas res" and rg: "r_GasUsed rc = UsedGas res"
    by (auto simp: applyTransaction_def Let_def new_receipt_def split: go.splits sum.splits)
  from ApplyMessage_gas [OF g am] have "unat gp' + unat (UsedGas res) = unat gp" by simp
  from gas_inv_step [OF inv this, of rc] show ?thesis
    using u rg by (metis Receipt.surjective Receipt.update_convs(9))
qed

lemma Process_loop_gas:
  assumes g: "gas_within_limit (sp_transition p)"
  shows "gas_inv limit (ps_gp st) (ps_usedGas st) (ps_receipts st) \<Longrightarrow>
         Process_loop p block vmenv i txs st = Return (Inr st') \<Longrightarrow>
         gas_inv limit (ps_gp st') (ps_usedGas st') (ps_receipts st')"
proof (induction txs arbitrary: i st)
  case Nil
  then show ?case by simp
next
  case (Cons tx txs)
  from Cons.prems(2) obtain h msg rc gp db used where
    a: "applyTransaction (sp_transition p) (sp_hashing p) msg (ps_gp st)
          (SetTxContext h i (ps_statedb st)) (h_Number (b_header block)) (b_hash block) tx
          (ps_usedGas st) vmenv = Return (Inr (rc, gp, db, used))"
    and l: "Process_loop p block vmenv (i + 1) txs
              \<lparr>ps_statedb = db, ps_gp = gp, ps_usedGas = used,
               ps_receipts = ps_receipts st @ [rc],
               ps_allLogs = ps_allLogs st @ r_Logs rc\<rparr> = Return (Inr st')"
    by (auto split: go.splits sum.splits)
  from applyTransaction_gas [OF g Cons.prems(1) a]
  have "gas_inv limit gp used (ps_receipts st @ [rc])" .
  from Cons.IH [OF _ l] this show ?case by simp
qed

lemma Process_gas:
  assumes g: "gas_within_limit (sp_transition p)"
    and r: "Process p block db = Return (Inr (receipts, allLogs, usedGas, db'))"
  shows "sum_list (map (\<lambda>r. unat (r_GasUsed r)) receipts) = unat usedGas \<and>
         unat usedGas \<le> unat (h_GasLimit (b_header block))"
proof -
  let ?st0 = "\<lparr>ps_statedb = db, ps_gp = AddGas (h_GasLimit (b_header block)) 0, ps_usedGas = 0,
                ps_receipts = [], ps_allLogs = []\<rparr>"
  from r obtain st where
    l: "Process_loop p block
          (NewZVM (sp_transition p) (NewZVMBlockContext p (b_header block)) 0 0) 0
          (b_transactions block) ?st0 = Return (Inr st)"
    and res: "receipts = ps_receipts st" "usedGas = ps_usedGas st"
    by (auto simp: Process_def Let_def split: go.splits sum.splits)
  have "gas_inv (h_GasLimit (b_header block)) (ps_gp ?st0) (ps_usedGas ?st0) (ps_receipts ?st0)"
    by (simp add: gas_inv_init)
  from Process_loop_gas [OF g this l] show ?thesis using res by (simp add: gas_inv_def)
qed

lemma Process_loop_over_pool:
  assumes h: "tx_Hash (tx_codec (sp_transition p)) tx = Return h"
    and msg: "TransactionToMessage (sp_transition p) tx (h_BaseFee (b_header block)) = Inr msg"
    and pc: "preCheck (sp_transition p) (SetTxContext h i (ps_statedb st)) msg = None"
    and over: "ps_gp st < msg_GasLimit msg"
  shows "Process_loop p block vmenv i (tx # txs) st = Return (Inl (i, ErrGasLimitReached))"
  using h msg ApplyMessage_reject_pool [OF pc over]
  by (simp add: applyTransaction_def Let_def)

text \<open>
  Claim C4. The gas pool starts as the gas limit of the block. A transaction whose gas
  limit is above what the pool holds is not executed: in \<^verbatim>\<open>Prestate.Apply\<close> it is
  reported as rejected with \<^verbatim>\<open>ErrGasLimitReached\<close>, the state is the one of the snapshot
  and the pool is what it was, and nothing else changes; in \<^verbatim>\<open>StateProcessor.Process\<close>
  the error ends the processing of the block. Whenever \<^verbatim>\<open>Apply\<close> or \<^verbatim>\<open>Process\<close> returns
  a result, the gas used is the sum of the gas used of the receipts, without overflow,
  and is at most the gas limit of the block: pool and gas used add up to the gas limit
  throughout, so the pool never goes below zero. It is assumed that an execution leaves
  no more gas than the gas limit of its message.
\<close>

theorem gas_pool_bound:
  assumes g: "gas_within_limit tr" and p: "sp_transition p = tr"
  shows "AddGas (env_GasLimit (pre_Env pre)) 0 = env_GasLimit (pre_Env pre) \<and>
     (wf_statedb (as_statedb st) \<and> tx_Hash (tx_codec tr) tx = Return h \<and>
      TransactionToMessage tr tx (env_BaseFee env) = Inr msg \<and>
      getTracerFn hs (as_txIndex st) h = None \<and>
      preCheck tr (snd (Snapshot (SetTxContext h (as_txIndex st) (as_statedb st)))) msg = None \<and>
      as_gaspool st < msg_GasLimit msg \<longrightarrow>
      Apply_tx tr hs env ctx i tx st =
        Return (Inr (st\<lparr>as_statedb :=
                          (SetTxContext h (as_txIndex st) (as_statedb st))
                            \<lparr>nextRevisionId := nextRevisionId (as_statedb st) + 1\<rparr>,
                        as_rejectedTxs :=
                          as_rejectedTxs st @ [\<lparr>rej_Index = i, rej_Err = ErrGasLimitReached\<rparr>]\<rparr>))) \<and>
     (Apply tr hs pre txs reward = Return (Inr (db, res)) \<longrightarrow>
      sum_list (map (\<lambda>r. unat (r_GasUsed r)) (er_Receipts res)) = unat (er_GasUsed res) \<and>
      unat (er_GasUsed res) \<le> unat (env_GasLimit (pre_Env pre))) \<and>
     (tx_Hash (tx_codec tr) tx' = Return h' \<and>
      TransactionToMessage tr tx' (h_BaseFee (b_header block)) = Inr msg' \<and>
      preCheck tr (SetTxContext h' j (ps_statedb ps)) msg' = None \<and>
      ps_gp ps < msg_GasLimit msg' \<longrightarrow>
      Process_loop p block vmenv j (tx' # txs') ps = Return (Inl (j, ErrGasLimitReached))) \<and>
     (Process p block db0 = Return (Inr (receipts, allLogs, usedGas, db')) \<longrightarrow>
      sum_list (map (\<lambda>r. unat (r_GasUsed r)) receipts) = unat usedGas \<and>
      unat usedGas \<le> unat (h_GasLimit (b_header block)))"
proof (intro conjI impI)
  show "AddGas (env_GasLimit (pre_Env pre)) 0 = env_GasLimit (pre_Env pre)"
    by (simp add: AddGas_def)
next
  assume a: "wf_statedb (as_statedb st) \<and> tx_Hash (tx_codec tr) tx = Return h \<and>
      TransactionToMessage tr tx (env_BaseFee env) = Inr msg \<and>
      getTracerFn hs (as_txIndex st) h = None \<and>
      preCheck tr (snd (Snapshot (SetTxContext h (as_txIndex st) (as_statedb st)))) msg = None \<and>
      as_gaspool st < msg_GasLimit msg"
  then show "Apply_tx tr hs env ctx i tx st =
        Return (Inr (st\<lparr>as_statedb :=
                          (SetTxContext h (as_txIndex st) (as_statedb st))
                            \<lparr>nextRevisionId := nextRevisionId (as_statedb st) + 1\<rparr>,
                        as_rejectedTxs :=
                          as_rejectedTxs st @ [\<lparr>rej_Index = i, rej_Err = ErrGasLimitReached\<rparr>]\<rparr>))"
    using Apply_tx_over_pool [where st = st and tr = tr and tx = tx and h = h and env = env
        and msg = msg and hs = hs and i = i and ctx = ctx] by blast
next
  assume "Apply tr hs pre txs reward = Return (Inr (db, res))"
  from Apply_gas [OF g this]
  show "sum_list (map (\<lambda>r. unat (r_GasUsed r)) (er_Receipts res)) = unat (er_GasUsed res)"
    and "unat (er_GasUsed res) \<le> unat (env_GasLimit (pre_Env pre))" by simp_all
next
  assume a: "tx_Hash (tx_codec tr) tx' = Return h' \<and>
      TransactionToMessage tr tx' (h_BaseFee (b_header block)) = Inr msg' \<and>
      preCheck tr (SetTxContext h' j (ps_statedb ps)) msg' = None \<and>
      ps_gp ps < msg_GasLimit msg'"
  then show "Process_loop p block vmenv j (tx' # txs') ps = Return (Inl (j, ErrGasLimitReached))"
    using p Process_loop_over_pool [where p = p and tx = tx' and h = h' and block = block
        and msg = msg' and i = j and st = ps and vmenv = vmenv and txs = txs'] by blast
next
  assume "Process p block db0 = Return (Inr (receipts, allLogs, usedGas, db'))"
  from Process_gas [OF _ this] g p
  show "sum_list (map (\<lambda>r. unat (r_GasUsed r)) receipts) = unat usedGas"
    and "unat usedGas \<le> unat (h_GasLimit (b_header block))" by simp_all
qed

lemma gas_within_limit_test: "gas_within_limit test_transition"
  by (auto simp: gas_within_limit_def test_transition_def word_le_nat_alt unat_sub not_less)

lemma test_MakePreState:
  "MakePreState (pre_Pre test_pre) = state_New [1 \<mapsto> empty_account\<lparr>acc_balance := 1000000\<rparr>]"
  by (simp add: MakePreState_def MakePreState_account_def test_pre_def state_New_def
      apply_mutation_def set_account_def getOrNew_def empty_account_def Finalise_def is_empty_def
      Let_def fun_eq_iff)

lemma test_Apply_eval:
  "Apply test_transition test_hashing test_pre test_txs (-1) =
     Return (Inr (state_New [1 \<mapsto> empty_account\<lparr>acc_nonce := 1, acc_balance := 979000\<rparr>],
       \<lparr>er_StateRoot = 0, er_TxRoot = 0, er_ReceiptRoot = 0, er_LogsHash = 0, er_Bloom = [],
        er_Receipts =
          [\<lparr>r_Type = 2, r_PostState = [], r_Status = 1, r_CumulativeGasUsed = 21000,
            r_Bloom = [], r_Logs = [], r_TxHash = 0, r_ContractAddress = 7, r_GasUsed = 21000,
            r_BlockHash = 0, r_BlockNumber = None, r_TransactionIndex = 0\<rparr>],
        er_Rejected = [\<lparr>rej_Index = 1, rej_Err = ErrGasLimitReached\<rparr>],
        er_GasUsed = 21000, er_BaseFee = None, er_WithdrawalsRoot = None\<rparr>))"
  unfolding Apply_def test_MakePreState
  by (simp add: test_pre_def test_txs_def test_transition_def test_hashing_def Let_def
      Apply_tx_def Apply_included_def Apply_receipt_def new_receipt_def ApplyMessage_def
      tx_Hash_def Hash_def Type_def tx_Nonce_def NewTx_def setDecoded_def new_Transaction_def
      toy_codec_def toy_tx_def SetTxContext_def Snapshot_def state_New_def GetNonce_def
      getOrNew_def empty_account_def SubGas_def AddGas_def apply_mutation_def set_account_def
      Finalise_def is_empty_def IntermediateRoot_def Commit_def Apply_vmContext_def
      NewZVM_def test_zvm_def GetLogs_def Failed_def ReceiptStatusSuccessful_def
      DynamicFeeTxType_def RevertToSnapshot_def search_revision_def journal_revert_def
      fun_eq_iff)

lemma test_Process_eval:
  "Process test_processor test_block (MakePreState (pre_Pre test_pre)) =
     Return (Inl (1, ErrGasLimitReached))"
  unfolding Process_def test_MakePreState
  by (simp add: test_processor_def test_block_def test_txs_def test_transition_def
      test_hashing_def Let_def applyTransaction_def new_receipt_def ApplyMessage_def
      tx_Hash_def Hash_def Type_def tx_Nonce_def NewTx_def setDecoded_def new_Transaction_def
      toy_codec_def toy_tx_def SetTxContext_def state_New_def GetNonce_def
      getOrNew_def empty_account_def SubGas_def AddGas_def apply_mutation_def set_account_def
      Finalise_def is_empty_def NewZVM_def test_zvm_def GetLogs_def Failed_def
      ReceiptStatusSuccessful_def DynamicFeeTxType_def)

theorem gas_pool_bound_witness:
  "Apply test_transition test_hashing test_pre test_txs (-1) =
     Return (Inr (state_New [1 \<mapsto> empty_account\<lparr>acc_nonce := 1, acc_balance := 979000\<rparr>],
       \<lparr>er_StateRoot = 0, er_TxRoot = 0, er_ReceiptRoot = 0, er_LogsHash = 0, er_Bloom = [],
        er_Receipts =
          [\<lparr>r_Type = 2, r_PostState = [], r_Status = 1, r_CumulativeGasUsed = 21000,
            r_Bloom = [], r_Logs = [], r_TxHash = 0, r_ContractAddress = 7, r_GasUsed = 21000,
            r_BlockHash = 0, r_BlockNumber = None, r_TransactionIndex = 0\<rparr>],
        er_Rejected = [\<lparr>rej_Index = 1, rej_Err = ErrGasLimitReached\<rparr>],
        er_GasUsed = 21000, er_BaseFee = None, er_WithdrawalsRoot = None\<rparr>)) \<and>
   unat (21000 :: uint64) \<le> unat (env_GasLimit (pre_Env test_pre)) \<and>
   Process test_processor test_block (MakePreState (pre_Pre test_pre)) =
     Return (Inl (1, ErrGasLimitReached))"
proof -
  have p: "sp_transition test_processor = test_transition" by (simp add: test_processor_def)
  from gas_pool_bound [OF gas_within_limit_test p, where pre = test_pre and hs = test_hashing
      and txs = test_txs and reward = "-1", THEN conjunct2, THEN conjunct2, THEN conjunct1,
      rule_format, OF test_Apply_eval]
  have "unat (21000 :: uint64) \<le> unat (env_GasLimit (pre_Env test_pre))"
    by simp
  then show ?thesis using test_Apply_eval test_Process_eval by simp
qed











section \<open>Properties of the transaction coding\<close>

text \<open>
  Claim C9. Decoding a transaction is total and knows one transaction type. For every
  byte string \<open>b\<close>: an input of length at most 1 gives \<^verbatim>\<open>errShortTypedTx\<close>; a longer input
  whose first byte is not \<^verbatim>\<open>0x02\<close> gives \<^verbatim>\<open>ErrTxTypeNotSupported\<close>; neither \<^verbatim>\<open>decodeTyped\<close>
  nor \<^verbatim>\<open>UnmarshalBinary\<close> panics, so the panicking methods of \<^verbatim>\<open>LegacyTx\<close> are never
  reached; no input decodes to a \<^verbatim>\<open>LegacyTx\<close>, and an input that decodes starts with
  \<^verbatim>\<open>0x02\<close> and yields a \<^verbatim>\<open>DynamicFeeTx\<close>. On an error the receiver is left as it was.
\<close>

theorem decodeTyped_total:
  "(length b \<le> 1 \<longrightarrow>
      decodeTyped cd b = Return (Inl errShortTypedTx) \<and>
      UnmarshalBinary cd now tx b = Return (tx, Some errShortTypedTx)) \<and>
   (1 < length b \<and> hd b \<noteq> DynamicFeeTxType \<longrightarrow>
      decodeTyped cd b = Return (Inl ErrTxTypeNotSupported) \<and>
      UnmarshalBinary cd now tx b = Return (tx, Some ErrTxTypeNotSupported)) \<and>
   decodeTyped cd b \<noteq> Panic \<and>
   UnmarshalBinary cd now tx b \<noteq> Panic \<and>
   (\<forall>l. decodeTyped cd b \<noteq> Return (Inr (LegacyTxData l))) \<and>
   (\<forall>tx'. UnmarshalBinary cd now tx b = Return (tx', None) \<longrightarrow>
      hd b = DynamicFeeTxType \<and> (\<exists>d. inner tx' = Some (DynamicFeeTxData d)))"
  by (cases b) (auto simp: decodeTyped_def UnmarshalBinary_def setDecoded_def Let_def
       split: sum.splits go.splits if_splits)

theorem decodeTyped_total_witness:
  "decodeTyped toy_codec [0x00] = Return (Inl errShortTypedTx) \<and>
   UnmarshalBinary toy_codec 7 new_Transaction [0x00] = Return (new_Transaction, Some errShortTypedTx) \<and>
   decodeTyped toy_codec [0x00, 0xC0] = Return (Inl ErrTxTypeNotSupported) \<and>
   UnmarshalBinary toy_codec 7 new_Transaction [0x00, 0xC0] = Return (new_Transaction, Some ErrTxTypeNotSupported) \<and>
   UnmarshalBinary toy_codec 7 new_Transaction [0x02, 0xC0] =
     Return (\<lparr>inner = Some (DynamicFeeTxData toy_tx), tx_time = 7, hash_cache = None, size_cache = Some 2\<rparr>, None)"
  using decodeTyped_total [of "[0x00]" toy_codec 7 new_Transaction]
    decodeTyped_total [of "[0x00, 0xC0]" toy_codec 7 new_Transaction]
    decodeTyped_total [of "[0x02, 0xC0]" toy_codec 7 new_Transaction]
  by (simp add: DynamicFeeTxType_def UnmarshalBinary_def decodeTyped_def toy_codec_def
      setDecoded_def new_Transaction_def)





end
